theory Spec2Isabelle
  imports Main
begin

section \<open>JavaScript strings and the regular expressions of the controller\<close>

text \<open>
  A JavaScript string is a sequence of UTF-16 code units; a code unit is modelled by its
  number. ASCII literals of the source are written \<open>js ''...''\<close>.
\<close>

type_synonym jsstring = "nat list"

definition js :: "string \<Rightarrow> jsstring" where
  "js cs = map of_char cs"

text \<open>
  \<open>String.prototype.trim\<close> removes the code units of the ECMAScript productions
  WhiteSpace (TAB, VT, FF, SP, NBSP, ZWNBSP and the Unicode space separators) and
  LineTerminator (LF, CR, LS, PS) from both ends.
\<close>

definition isWhiteSpace :: "nat \<Rightarrow> bool" where
  "isWhiteSpace c \<longleftrightarrow>
     c \<in> set [9, 10, 11, 12, 13, 32, 160, 5760, 8232, 8233, 8239, 8287, 12288, 65279]
     \<or> (8192 \<le> c \<and> c \<le> 8202)"

definition js_trim :: "jsstring \<Rightarrow> jsstring" where
  "js_trim s = rev (dropWhile isWhiteSpace (rev (dropWhile isWhiteSpace s)))"

definition isDigit :: "nat \<Rightarrow> bool" where
  "isDigit c \<longleftrightarrow> 48 \<le> c \<and> c \<le> 57"

text \<open>
  The character class \<open>[0-9A-D#*]\<close> of \<open>sendDigits\<close>, and the canonicalisation that the
  \<open>i\<close> flag of \<open>/[^0-9A-D#*]/gi\<close> applies to a code unit before the class is consulted
  (without the \<open>u\<close> flag: the upper-case mapping, except that a code unit from 128 on is
  never mapped below 128; so on ASCII it is the ASCII upper-case mapping, and no other code
  unit reaches the ASCII members of the class).
\<close>

definition inToneClass :: "nat \<Rightarrow> bool" where
  "inToneClass c \<longleftrightarrow> isDigit c \<or> (65 \<le> c \<and> c \<le> 68) \<or> c = 35 \<or> c = 42"

definition canonicalizeAscii :: "nat \<Rightarrow> nat" where
  "canonicalizeAscii c = (if 97 \<le> c \<and> c \<le> 122 then c - 32 else c)"

definition keptByToneRegex :: "nat \<Rightarrow> bool" where
  "keptByToneRegex c \<longleftrightarrow> c < 128 \<and> inToneClass (canonicalizeAscii c)"

text \<open>\<open>digits.replace(/[^0-9A-D#*]/gi, '')\<close>\<close>

definition cleanDigits :: "jsstring \<Rightarrow> jsstring" where
  "cleanDigits digits = filter keptByToneRegex digits"

text \<open>\<open>value.replace(/[^0-9+]/g, '')\<close>\<close>

definition keepDialChars :: "jsstring \<Rightarrow> jsstring" where
  "keepDialChars v = filter (\<lambda>c. isDigit c \<or> c = 43) v"

definition startsWithPlus :: "jsstring \<Rightarrow> bool" where
  "startsWithPlus v = (case v of [] \<Rightarrow> False | c # _ \<Rightarrow> c = 43)"

text \<open>\<open>value.replace(/[^a-zA-Z0-9_\-@.]/g, '_')\<close> of \<open>sanitizeIdentity\<close>.\<close>

definition isIdentityChar :: "nat \<Rightarrow> bool" where
  "isIdentityChar c \<longleftrightarrow>
     (97 \<le> c \<and> c \<le> 122) \<or> (65 \<le> c \<and> c \<le> 90) \<or> isDigit c
     \<or> c = 95 \<or> c = 45 \<or> c = 64 \<or> c = 46"

definition sanitizeIdentity :: "jsstring option \<Rightarrow> jsstring \<Rightarrow> jsstring" where
  "sanitizeIdentity v fallback =
     (case v of
        None \<Rightarrow> fallback
      | Some s \<Rightarrow>
          if s = [] then fallback
          else (let trimmed = js_trim s in
                if trimmed = [] then fallback
                else map (\<lambda>c. if isIdentityChar c then c else 95) trimmed))"

definition normalisePhoneNumber :: "jsstring option \<Rightarrow> jsstring option" where
  "normalisePhoneNumber v =
     (case v of
        None \<Rightarrow> None
      | Some s \<Rightarrow>
          if s = [] then None
          else (let digits = keepDialChars s in
                if digits = [] then None
                else if startsWithPlus digits then Some digits
                else Some (43 # digits)))"

section \<open>Call log service (services/userCallLogs)\<close>

text \<open>
  A Firestore document or update payload is a finite map from field names to values;
  \<open>deleteField()\<close> and \<open>serverTimestamp()\<close> are the sentinels of the Firestore SDK.
\<close>

datatype fs_value =
    FString jsstring
  | FNumber int
  | FBool bool
  | FNull
  | FDeleteField
  | FServerTimestamp

type_synonym fs_object = "string \<rightharpoonup> fs_value"

text \<open>Requests handed to the Firestore SDK under \<open>users/<userId>/callLogs\<close>.\<close>

datatype firestore_call =
    AddDoc jsstring fs_object
  | UpdateDoc jsstring jsstring fs_object

text \<open>What a function throws: an \<open>Error\<close> object with its message, or some other value.\<close>

datatype thrown = ErrorObj jsstring | OtherValue

definition createUserCallLog_payload :: "fs_object \<Rightarrow> fs_object" where
  "createUserCallLog_payload payload =
     [''direction'' \<mapsto> FString (js ''outbound''),
      ''status'' \<mapsto> FString (js ''connecting''),
      ''durationSeconds'' \<mapsto> FNumber 0,
      ''startedAt'' \<mapsto> FServerTimestamp,
      ''createdAt'' \<mapsto> FServerTimestamp] ++ payload"

text \<open>
  \<open>createUserCallLog\<close> up to its \<open>await addDoc(...)\<close>: it throws when Firebase is not
  configured and otherwise hands the document to \<open>addDoc\<close>, whose result is the identifier.
\<close>

definition createUserCallLog :: "bool \<Rightarrow> jsstring \<Rightarrow> fs_object \<Rightarrow> thrown + firestore_call" where
  "createUserCallLog firebaseDb userId payload =
     (if \<not> firebaseDb then Inl (ErrorObj (js ''Firebase is not configured''))
      else Inr (AddDoc userId (createUserCallLog_payload payload)))"

text \<open>The \<open>payload\<close> that \<open>finalizeUserCallLog\<close> builds from \<open>updates\<close>.\<close>

definition finalizeUserCallLog_payload :: "fs_object \<Rightarrow> fs_object" where
  "finalizeUserCallLog_payload updates =
     (let note = (case updates ''note'' of Some (FString n) \<Rightarrow> js_trim n | _ \<Rightarrow> [])
      in updates(''note'' \<mapsto> (if length note > 0 then FString note else FDeleteField),
                 ''endedAt'' \<mapsto> FServerTimestamp))"

definition finalizeUserCallLog ::
  "bool \<Rightarrow> jsstring \<Rightarrow> jsstring \<Rightarrow> fs_object \<Rightarrow> thrown + firestore_call" where
  "finalizeUserCallLog firebaseDb userId logId updates =
     (if \<not> firebaseDb then Inl (ErrorObj (js ''Firebase is not configured''))
      else Inr (UpdateDoc userId logId (finalizeUserCallLog_payload updates)))"

text \<open>
  The documented effect of Firestore's \<open>updateDoc\<close> on a stored document (the store itself
  is outside the repository): a field holding \<open>deleteField()\<close> is removed, one holding
  \<open>serverTimestamp()\<close> receives the server's time, any other field is overwritten.
\<close>

definition firestore_apply :: "int \<Rightarrow> fs_object \<Rightarrow> fs_object \<Rightarrow> fs_object" where
  "firestore_apply serverTime payload stored =
     (\<lambda>k. case payload k of
             None \<Rightarrow> stored k
           | Some FDeleteField \<Rightarrow> None
           | Some FServerTimestamp \<Rightarrow> Some (FNumber serverTime)
           | Some v \<Rightarrow> Some v)"

section \<open>Event feed\<close>

record EventEntry =
  entry_id :: nat
  at :: int
  message :: jsstring

definition MAX_EVENT_ENTRIES :: nat where
  "MAX_EVENT_ENTRIES = 100"

text \<open>The updater passed to \<open>setEvents\<close> by \<open>pushEvent\<close>.\<close>

definition pushEntry :: "EventEntry \<Rightarrow> EventEntry list \<Rightarrow> EventEntry list" where
  "pushEntry e prev = take MAX_EVENT_ENTRIES (e # prev)"

section \<open>Controller state (context/TwilioClientContext)\<close>

datatype CallState =
  idle | connecting | ringing | incoming | active | held | completed | failed

datatype ConnectionState =
  conn_idle | initialising | registered | conn_error | disconnected

record AuthUser =
  uid :: jsstring
  email :: "jsstring option"

text \<open>
  A call object of the voice SDK, as far as the controller looks at it: the optional
  \<open>parameters.From\<close> and \<open>parameters.To\<close>, whether the optional methods \<open>isMuted\<close>,
  \<open>isOnHold\<close> and \<open>hold\<close> exist, and what \<open>isMuted()\<close> and \<open>isOnHold()\<close> report.
  The SDK is outside the repository: a successful \<open>mute(b)\<close> or \<open>hold(b)\<close> is taken to set
  the reported flag to \<open>b\<close>.
\<close>

record Connection =
  parameters_From :: "jsstring option"
  parameters_To :: "jsstring option"
  has_isMuted :: bool
  has_isOnHold :: bool
  has_hold :: bool
  sdk_muted :: bool
  sdk_onHold :: bool

record TokenResponse =
  token :: jsstring
  identity :: "jsstring option"
  expiresIn :: "int option"

text \<open>Calls made into the voice SDK, in the order they are made.\<close>

datatype sdk_call =
    NewDevice nat jsstring
  | RemoveAllListeners nat
  | Destroy nat
  | Register nat
  | DeviceConnect nat jsstring nat
  | DisconnectAll nat
  | ConnDisconnect nat
  | ConnAccept nat
  | ConnReject nat
  | ConnMute nat bool
  | ConnHold nat bool
  | ConnSendDigits nat jsstring

text \<open>
  Events of a call object, and the listeners that \<open>attachOnce\<close> registers for them. A
  listener that finalises the call log carries the user of the \<open>finalizeActiveLog\<close> its
  closure captured when it was attached.
\<close>

datatype conn_event = Ev_cancel | Ev_reject | Ev_disconnect | Ev_error | Ev_ringing

datatype handler =
    H_incoming_cancel
  | H_incoming_reject
  | H_connect_disconnect "AuthUser option"
  | H_connect_error "AuthUser option"
  | H_ringing
  | H_cancel "AuthUser option"
  | H_reject "AuthUser option"
  | H_error "AuthUser option"

datatype device_event =
    Dev_ready
  | Dev_error "jsstring option"
  | Dev_disconnect
  | Dev_incoming nat
  | Dev_connect nat

datatype LogStatus = Completed | Failed | Cancelled

definition statusString :: "LogStatus \<Rightarrow> jsstring" where
  "statusString st =
     (case st of Completed \<Rightarrow> js ''completed'' | Failed \<Rightarrow> js ''failed'' | Cancelled \<Rightarrow> js ''cancelled'')"

datatype 'a promise = Resolved 'a | Rejected thrown

text \<open>
  The provider's React state (\<open>connectionStatus\<close> to \<open>activeNumber\<close>), the signed-in user
  of \<open>useAuth\<close>, the refs (\<open>identityRef\<close> to \<open>callNoteRef\<close>), and the environment the
  provider acts on: the clock \<open>Date.now()\<close>, the number of random event identifiers drawn
  so far (the n-th identifier is represented by n), whether \<open>firebaseDb\<close> is configured,
  the calls made into the SDK and into Firestore, the store of call objects with the
  listeners attached to them, the devices that carry the listeners of \<open>initializeClient\<close>
  (with the \<open>identity\<close>, \<open>activeNumber\<close> and \<open>user\<close> captured by those closures) and the
  pending timers (identifier, delay in milliseconds, captured identity).

  An operation reads the state variables and the user as they are when it is called: it
  is taken from the latest render. A listener keeps what its closure captured when it was
  attached; the refs are read when it runs.
\<close>

record controller =
  connectionStatus :: "ConnectionState \<times> jsstring"
  callState :: CallState
  events :: "EventEntry list"
  isClientReady :: bool
  isMuted :: bool
  isOnHold :: bool
  lastError :: "jsstring option"
  incomingNumber :: "jsstring option"
  activeNumber :: "jsstring option"
  user :: "AuthUser option"
  identityRef :: jsstring
  deviceRef :: "nat option"
  activeConnectionRef :: "nat option"
  incomingConnectionRef :: "nat option"
  tokenRefreshTimerRef :: "nat option"
  activeLogIdRef :: "jsstring option"
  activeCallStartedAtRef :: "int option"
  callNoteRef :: jsstring
  now :: int
  idsDrawn :: nat
  firebaseDb :: bool
  sdkCalls :: "sdk_call list"
  firestoreCalls :: "firestore_call list"
  nextDevice :: nat
  nextConnection :: nat
  connections :: "nat \<rightharpoonup> Connection"
  connListeners :: "(nat \<times> conn_event \<times> handler) list"
  deviceListeners :: "nat \<rightharpoonup> jsstring \<times> jsstring option \<times> AuthUser option"
  timers :: "(nat \<times> int \<times> jsstring option) list"
  nextTimer :: nat

definition initial :: "AuthUser option \<Rightarrow> bool \<Rightarrow> int \<Rightarrow> controller" where
  "initial u db t =
     \<lparr> connectionStatus = (conn_idle, js ''Twilio client not initialised''),
       callState = idle, events = [], isClientReady = False, isMuted = False,
       isOnHold = False, lastError = None, incomingNumber = None, activeNumber = None,
       user = u, identityRef = js ''agent'', deviceRef = None, activeConnectionRef = None,
       incomingConnectionRef = None, tokenRefreshTimerRef = None, activeLogIdRef = None,
       activeCallStartedAtRef = None, callNoteRef = [], now = t, idsDrawn = 0,
       firebaseDb = db, sdkCalls = [], firestoreCalls = [], nextDevice = 0,
       nextConnection = 0, connections = Map.empty, connListeners = [],
       deviceListeners = Map.empty, timers = [], nextTimer = 1 \<rparr>"

definition pushEvent :: "jsstring \<Rightarrow> controller \<Rightarrow> controller" where
  "pushEvent msg s =
     s\<lparr> events := pushEntry \<lparr> entry_id = idsDrawn s, at = now s, message = msg \<rparr> (events s),
        idsDrawn := idsDrawn s + 1 \<rparr>"

definition resetEvents :: "controller \<Rightarrow> controller" where
  "resetEvents s = s\<lparr> events := [] \<rparr>"

definition setCallNote :: "jsstring \<Rightarrow> controller \<Rightarrow> controller" where
  "setCallNote note s = s\<lparr> callNoteRef := note \<rparr>"

definition clearTimeout :: "nat \<Rightarrow> controller \<Rightarrow> controller" where
  "clearTimeout t s = s\<lparr> timers := filter (\<lambda>(i, _, _). i \<noteq> t) (timers s) \<rparr>"

text \<open>
  \<open>clearDevice\<close>. The SDK's \<open>removeAllListeners\<close> and \<open>destroy\<close> are taken to return
  normally (a throw is swallowed by the \<open>try\<close>, and the assignments after it are the same).
\<close>

definition clearDevice :: "controller \<Rightarrow> controller" where
  "clearDevice s =
     (let s1 = (case deviceRef s of
                  None \<Rightarrow> s
                | Some d \<Rightarrow> s\<lparr> sdkCalls := sdkCalls s @ [RemoveAllListeners d, Destroy d],
                               deviceListeners := (deviceListeners s)(d := None) \<rparr>);
          s2 = s1\<lparr> deviceRef := None, activeConnectionRef := None, incomingConnectionRef := None \<rparr>;
          s3 = (case tokenRefreshTimerRef s2 of
                  None \<Rightarrow> s2
                | Some t \<Rightarrow> (clearTimeout t s2)\<lparr> tokenRefreshTimerRef := None \<rparr>)
      in s3\<lparr> isClientReady := False,
             connectionStatus := (disconnected, js ''Twilio client disconnected'') \<rparr>)"

definition scheduleTokenRefresh :: "int option \<Rightarrow> jsstring option \<Rightarrow> controller \<Rightarrow> controller" where
  "scheduleTokenRefresh expiresInSeconds ident s =
     (let s1 = (case tokenRefreshTimerRef s of None \<Rightarrow> s | Some t \<Rightarrow> clearTimeout t s)
      in case expiresInSeconds of
           None \<Rightarrow> s1
         | Some e \<Rightarrow>
             if e \<le> 0 then s1
             else (let refreshInMs = max ((e - 120) * 1000) 30000
                   in s1\<lparr> tokenRefreshTimerRef := Some (nextTimer s1),
                          timers := timers s1 @ [(nextTimer s1, refreshInMs, ident)],
                          nextTimer := nextTimer s1 + 1 \<rparr>))"

text \<open>
  \<open>Math.round(ms / 1000)\<close> for a whole number of milliseconds: rounding to the nearest
  integer, a half upwards.
\<close>

definition roundSeconds :: "int \<Rightarrow> int" where
  "roundSeconds ms = (ms + 500) div 1000"

definition durationSeconds :: "int option \<Rightarrow> int \<Rightarrow> int" where
  "durationSeconds startedAt t =
     (case startedAt of
        None \<Rightarrow> 0
      | Some st \<Rightarrow> if st = 0 then 0 else max (roundSeconds (t - st)) 0)"

definition truthy :: "jsstring option \<Rightarrow> bool" where
  "truthy v = (case v of None \<Rightarrow> False | Some x \<Rightarrow> x \<noteq> [])"

definition finalizeUpdates :: "LogStatus \<Rightarrow> int \<Rightarrow> jsstring \<Rightarrow> fs_object \<Rightarrow> fs_object" where
  "finalizeUpdates status d note extra =
     ([''status'' \<mapsto> FString (statusString status), ''durationSeconds'' \<mapsto> FNumber d]
        ++ (if note \<noteq> [] then [''note'' \<mapsto> FString note] else Map.empty))
        ++ extra"

text \<open>
  \<open>finalizeActiveLog\<close>; \<open>closureUser\<close> is the \<open>user\<close> of the render in which the instance
  that is called was created. The request to Firestore is issued within the call; when
  \<open>finalizeUserCallLog\<close> throws, the \<open>catch\<close> pushes its event (no statement that follows
  the call in any caller touches the feed, so pushing it at once gives the same state).
  A later rejection of \<open>updateDoc\<close> is \<open>finalizeActiveLog_rejected\<close>.
\<close>

definition finalizeActiveLog ::
  "AuthUser option \<Rightarrow> LogStatus \<Rightarrow> fs_object \<Rightarrow> controller \<Rightarrow> controller" where
  "finalizeActiveLog closureUser status extra s =
     (case closureUser of
        None \<Rightarrow> s
      | Some u \<Rightarrow>
          if \<not> truthy (activeLogIdRef s) then s
          else
            (let logId = (case activeLogIdRef s of Some l \<Rightarrow> l | None \<Rightarrow> []);
                 startedAt = activeCallStartedAtRef s;
                 note = js_trim (callNoteRef s);
                 s1 = s\<lparr> activeLogIdRef := None, activeCallStartedAtRef := None,
                         callNoteRef := [] \<rparr>;
                 d = durationSeconds startedAt (now s)
             in case finalizeUserCallLog (firebaseDb s) (uid u) logId
                       (finalizeUpdates status d note extra) of
                  Inr call \<Rightarrow> s1\<lparr> firestoreCalls := firestoreCalls s1 @ [call] \<rparr>
                | Inl err \<Rightarrow> pushEvent (js ''Unable to update call log with final status'') s1))"

definition finalizeActiveLog_rejected :: "controller \<Rightarrow> controller" where
  "finalizeActiveLog_rejected s = pushEvent (js ''Unable to update call log with final status'') s"

section \<open>Notifications of the SDK\<close>

definition conn_From :: "controller \<Rightarrow> nat \<Rightarrow> jsstring option" where
  "conn_From s c = (case connections s c of None \<Rightarrow> None | Some k \<Rightarrow> parameters_From k)"

definition conn_To :: "controller \<Rightarrow> nat \<Rightarrow> jsstring option" where
  "conn_To s c = (case connections s c of None \<Rightarrow> None | Some k \<Rightarrow> parameters_To k)"

text \<open>\<open>connection.isMuted?.()\<close> and \<open>connection.isOnHold?.()\<close>: nothing when the method is absent.\<close>

definition conn_isMuted :: "controller \<Rightarrow> nat \<Rightarrow> bool option" where
  "conn_isMuted s c =
     (case connections s c of
        None \<Rightarrow> None
      | Some k \<Rightarrow> if has_isMuted k then Some (sdk_muted k) else None)"

definition conn_isOnHold :: "controller \<Rightarrow> nat \<Rightarrow> bool option" where
  "conn_isOnHold s c =
     (case connections s c of
        None \<Rightarrow> None
      | Some k \<Rightarrow> if has_isOnHold k then Some (sdk_onHold k) else None)"

definition conn_has_hold :: "controller \<Rightarrow> nat \<Rightarrow> bool" where
  "conn_has_hold s c = (case connections s c of None \<Rightarrow> False | Some k \<Rightarrow> has_hold k)"

definition orElse :: "'a option \<Rightarrow> 'a \<Rightarrow> 'a" where
  "orElse v d = (case v of None \<Rightarrow> d | Some x \<Rightarrow> x)"

definition attachOnce :: "nat \<Rightarrow> conn_event \<Rightarrow> handler \<Rightarrow> controller \<Rightarrow> controller" where
  "attachOnce c ev h s = s\<lparr> connListeners := connListeners s @ [(c, ev, h)] \<rparr>"

text \<open>
  The bodies of the listeners. \<open>c\<close> is the call object captured by the closure, \<open>err\<close> is
  \<open>error?.message\<close> when that is a string.
\<close>

definition runHandler :: "handler \<Rightarrow> nat \<Rightarrow> jsstring option \<Rightarrow> controller \<Rightarrow> controller" where
  "runHandler h c err s =
     (case h of
        H_incoming_cancel \<Rightarrow>
          (let s1 = pushEvent (js ''Incoming call cancelled by remote party'') s
           in if incomingConnectionRef s1 = Some c
              then s1\<lparr> incomingConnectionRef := None, callState := idle, incomingNumber := None \<rparr>
              else s1)
      | H_incoming_reject \<Rightarrow>
          (let s1 = pushEvent (js ''Incoming call rejected'') s
           in if incomingConnectionRef s1 = Some c
              then s1\<lparr> incomingConnectionRef := None, callState := idle, incomingNumber := None \<rparr>
              else s1)
      | H_connect_disconnect closureUser \<Rightarrow>
          (let s1 = pushEvent (js ''Call disconnected'') s;
               s2 = s1\<lparr> activeConnectionRef := None, callState := completed, isMuted := False,
                       isOnHold := False, activeNumber := None \<rparr>
           in finalizeActiveLog closureUser Completed Map.empty s2)
      | H_connect_error closureUser \<Rightarrow>
          (let msg = orElse err (js ''Call error'');
               s1 = pushEvent (js ''Call error: '' @ msg) s;
               s2 = s1\<lparr> lastError := Some msg \<rparr>
           in finalizeActiveLog closureUser Failed [''statusReason'' \<mapsto> FString msg] s2)
      | H_ringing \<Rightarrow>
          pushEvent (js ''Call ringing'') (s\<lparr> callState := ringing \<rparr>)
      | H_cancel closureUser \<Rightarrow>
          (let s1 = pushEvent (js ''Call cancelled'') s;
               s2 = s1\<lparr> callState := failed \<rparr>
           in finalizeActiveLog closureUser Cancelled Map.empty s2)
      | H_reject closureUser \<Rightarrow>
          (let s1 = pushEvent (js ''Call rejected by Twilio'') s;
               s2 = s1\<lparr> callState := failed \<rparr>
           in finalizeActiveLog closureUser Failed [''statusReason'' \<mapsto> FString (js ''rejected'')] s2)
      | H_error closureUser \<Rightarrow>
          (let msg = orElse err (js ''Call error'');
               s1 = s\<lparr> lastError := Some msg, callState := failed \<rparr>;
               s2 = pushEvent (js ''Call error: '' @ msg) s1
           in finalizeActiveLog closureUser Failed [''statusReason'' \<mapsto> FString msg] s2))"

text \<open>
  The call object emits an event: every listener attached for it at that moment runs, in
  the order of attachment; the wrapper of \<open>attachOnce\<close> detaches itself first.
\<close>

fun fire :: "(nat \<times> conn_event \<times> handler) list \<Rightarrow> jsstring option \<Rightarrow> controller \<Rightarrow> controller" where
  "fire [] err s = s"
| "fire ((c, ev, h) # ls) err s =
     fire ls err (runHandler h c err (s\<lparr> connListeners := remove1 (c, ev, h) (connListeners s) \<rparr>))"

definition emit :: "nat \<Rightarrow> conn_event \<Rightarrow> jsstring option \<Rightarrow> controller \<Rightarrow> controller" where
  "emit c ev err s =
     fire (filter (\<lambda>l. fst l = c \<and> fst (snd l) = ev) (connListeners s)) err s"

text \<open>
  The listeners that \<open>initializeClient\<close> puts on a device; \<open>captured\<close> holds the
  \<open>activeNumber\<close> and the \<open>user\<close> of the closure. A device without listeners ignores the
  event. The
  \<open>tokenWillExpire\<close> listener and the callback of the refresh timer, which fetch a new
  token and push an event, are left out: they touch neither a call nor its log.
\<close>

definition deviceHandler ::
  "jsstring option \<times> AuthUser option \<Rightarrow> device_event \<Rightarrow> controller \<Rightarrow> controller" where
  "deviceHandler captured ev s =
     (case ev of
        Dev_ready \<Rightarrow>
          pushEvent (js ''Twilio device ready'')
            (s\<lparr> connectionStatus := (registered, js ''Twilio device ready''),
               isClientReady := True \<rparr>)
      | Dev_error err \<Rightarrow>
          (let msg = orElse err (js ''Twilio device error'')
           in pushEvent (js ''Device error: '' @ msg)
                (s\<lparr> connectionStatus := (conn_error, msg), lastError := Some msg \<rparr>))
      | Dev_disconnect \<Rightarrow>
          pushEvent (js ''Twilio device disconnected'')
            (s\<lparr> connectionStatus := (disconnected, js ''Twilio device disconnected''),
               isClientReady := False \<rparr>)
      | Dev_incoming c \<Rightarrow>
          (let caller = (case normalisePhoneNumber (conn_From s c) of
                           Some n \<Rightarrow> Some n
                         | None \<Rightarrow> conn_From s c);
               s1 = s\<lparr> incomingConnectionRef := Some c, callState := incoming,
                       incomingNumber := caller, activeNumber := None, isMuted := False,
                       isOnHold := False, lastError := None, callNoteRef := [] \<rparr>;
               s2 = pushEvent (js ''Incoming call from '' @ orElse caller (js ''unknown'')) s1
           in attachOnce c Ev_reject H_incoming_reject
                (attachOnce c Ev_cancel H_incoming_cancel s2))
      | Dev_connect c \<Rightarrow>
          (let to = (case conn_To s c of Some t \<Rightarrow> Some t | None \<Rightarrow> fst captured);
               s1 = s\<lparr> activeConnectionRef := Some c, callState := active,
                       isMuted := orElse (conn_isMuted s c) False,
                       isOnHold := orElse (conn_isOnHold s c) False,
                       lastError := None, incomingNumber := None,
                       activeCallStartedAtRef := Some (now s), activeNumber := to \<rparr>;
               s2 = pushEvent (js ''Call connected with '' @ orElse to (js ''unknown destination'')) s1
           in attachOnce c Ev_error (H_connect_error (snd captured))
                (attachOnce c Ev_disconnect (H_connect_disconnect (snd captured)) s2)))"

definition device_emit :: "nat \<Rightarrow> device_event \<Rightarrow> controller \<Rightarrow> controller" where
  "device_emit d ev s =
     (case deviceListeners s d of
        None \<Rightarrow> s
      | Some (ident, captured) \<Rightarrow> deviceHandler captured ev s)"

text \<open>The SDK announces a new inbound call object: it enters the store of call objects.\<close>

definition sdk_newConnection :: "Connection \<Rightarrow> controller \<Rightarrow> nat \<times> controller" where
  "sdk_newConnection k s =
     (nextConnection s,
      s\<lparr> nextConnection := nextConnection s + 1,
         connections := (connections s)(nextConnection s \<mapsto> k) \<rparr>)"

definition advance :: "int \<Rightarrow> controller \<Rightarrow> controller" where
  "advance ms s = s\<lparr> now := now s + ms \<rparr>"

section \<open>Operations of the controller\<close>

text \<open>
  An asynchronous function runs in segments separated by its \<open>await\<close>s; between two
  segments other callbacks may run. \<open>initializeClient_begin\<close> is the segment up to
  \<open>await fetchAccessToken(identity)\<close>: the call is settled at once, or it is suspended with
  the identity it asked a token for. \<open>initializeClient_resume\<close> is the segment from the
  arrival of the token to \<open>await device.register()\<close>; its result is the device that the
  call returns once \<open>register()\<close> has resolved, and \<open>captured\<close> holds the \<open>activeNumber\<close> and
  the \<open>user\<close> of the instance that was called.
\<close>

datatype init_step = Settled "nat promise" | AwaitingToken jsstring

text \<open>\<open>sanitizeIdentity(user.email ?? user.uid ?? 'agent', 'agent')\<close>\<close>

definition userIdentity :: "AuthUser \<Rightarrow> jsstring" where
  "userIdentity u = sanitizeIdentity (Some (orElse (email u) (uid u))) (js ''agent'')"

definition initializeClient_request :: "AuthUser \<Rightarrow> controller \<Rightarrow> init_step \<times> controller" where
  "initializeClient_request u s =
     (let ident = userIdentity u;
          s1 = s\<lparr> identityRef := ident,
                  connectionStatus := (initialising, js ''Initialising Twilio device'') \<rparr>
      in (AwaitingToken ident, pushEvent (js ''Requesting Twilio token for '' @ ident) s1))"

definition initializeClient_begin :: "controller \<Rightarrow> init_step \<times> controller" where
  "initializeClient_begin s =
     (case user s of
        None \<Rightarrow>
          (Settled (Rejected (ErrorObj (js ''Twilio client requires an authenticated user''))), s)
      | Some u \<Rightarrow>
          (case deviceRef s of
             None \<Rightarrow> initializeClient_request u s
           | Some d \<Rightarrow>
               if isClientReady s then (Settled (Resolved d), s)
               else initializeClient_request u (clearDevice s)))"

definition initializeClient_resume ::
  "jsstring \<Rightarrow> jsstring option \<times> AuthUser option \<Rightarrow> TokenResponse \<Rightarrow> controller
     \<Rightarrow> nat \<times> controller" where
  "initializeClient_resume ident captured resp s =
     (let d = nextDevice s;
          s1 = s\<lparr> identityRef := orElse (identity resp) ident,
                  nextDevice := d + 1,
                  sdkCalls := sdkCalls s @ [NewDevice d (token resp)],
                  deviceListeners := (deviceListeners s)(d \<mapsto> (ident, captured)),
                  deviceRef := Some d \<rparr>;
          s2 = scheduleTokenRefresh (expiresIn resp) (identity resp) s1
      in (d, s2\<lparr> sdkCalls := sdkCalls s2 @ [Register d] \<rparr>))"

text \<open>
  A call of \<open>initializeClient\<close> that runs to its end with nothing else in between:
  \<open>fetched\<close> is the outcome of \<open>fetchAccessToken\<close>, \<open>registration\<close> what \<open>register()\<close>
  throws, if anything.
\<close>

definition initializeClient ::
  "thrown + TokenResponse \<Rightarrow> thrown option \<Rightarrow> controller \<Rightarrow> nat promise \<times> controller" where
  "initializeClient fetched registration s =
     (case initializeClient_begin s of
        (Settled p, s1) \<Rightarrow> (p, s1)
      | (AwaitingToken ident, s1) \<Rightarrow>
          (case fetched of
             Inl e \<Rightarrow> (Rejected e, s1)
           | Inr resp \<Rightarrow>
               (case initializeClient_resume ident (activeNumber s, user s) resp s1 of
                  (d, s2) \<Rightarrow>
                    (case registration of
                       None \<Rightarrow> (Resolved d, s2)
                     | Some e \<Rightarrow> (Rejected e, s2)))))"

text \<open>
  What the environment answers during one \<open>makeCall\<close> or \<open>acceptIncomingCall\<close>: the token
  request and the registration (consulted only when the device is not ready), \<open>addDoc\<close>
  (the identifier of the new document, or what it throws), \<open>device.connect\<close> (the new
  call object, or what it throws) and \<open>accept()\<close>.
\<close>

record CallEnv =
  tokenFetch :: "thrown + TokenResponse"
  registerOutcome :: "thrown option"
  addDocOutcome :: "thrown + jsstring"
  connectOutcome :: "thrown + Connection"
  acceptOutcome :: "thrown option"

text \<open>The \<open>try\<close> around \<open>createUserCallLog\<close>: a failure leaves \<open>activeLogIdRef\<close> as it was.\<close>

definition createLog :: "CallEnv \<Rightarrow> jsstring \<Rightarrow> fs_object \<Rightarrow> controller \<Rightarrow> controller" where
  "createLog env userId payload s =
     (case createUserCallLog (firebaseDb s) userId payload of
        Inl e \<Rightarrow> s
      | Inr call \<Rightarrow>
          (let s1 = s\<lparr> firestoreCalls := firestoreCalls s @ [call] \<rparr>
           in case addDocOutcome env of
                Inl e \<Rightarrow> s1
              | Inr logId \<Rightarrow> s1\<lparr> activeLogIdRef := Some logId \<rparr>))"

definition makeCall_dial ::
  "CallEnv \<Rightarrow> AuthUser \<Rightarrow> nat \<Rightarrow> jsstring \<Rightarrow> controller \<Rightarrow> bool promise \<times> controller" where
  "makeCall_dial env u device trimmedDestination s =
     (let normalisedDestination =
            (if startsWithPlus trimmedDestination then trimmedDestination
             else keepDialChars trimmedDestination);
          s1 = s\<lparr> callNoteRef := [], callState := connecting,
                  activeNumber := Some normalisedDestination, isMuted := False,
                  isOnHold := False, incomingNumber := None, lastError := None \<rparr>;
          s2 = createLog env (uid u)
                 [''to'' \<mapsto> FString normalisedDestination,
                  ''direction'' \<mapsto> FString (js ''outbound'')] s1;
          s3 = pushEvent (js ''Dialling '' @ normalisedDestination) s2
      in case connectOutcome env of
           Inl e \<Rightarrow> (Rejected e, s3)
         | Inr k \<Rightarrow>
             (let c = nextConnection s3;
                  s4 = s3\<lparr> nextConnection := c + 1,
                          connections := (connections s3)(c \<mapsto> k),
                          sdkCalls := sdkCalls s3 @ [DeviceConnect device normalisedDestination c],
                          activeConnectionRef := Some c \<rparr>
              in (Resolved True,
                  attachOnce c Ev_error (H_error (Some u))
                    (attachOnce c Ev_reject (H_reject (Some u))
                      (attachOnce c Ev_cancel (H_cancel (Some u))
                        (attachOnce c Ev_ringing H_ringing s4))))))"

definition makeCall :: "CallEnv \<Rightarrow> jsstring \<Rightarrow> controller \<Rightarrow> bool promise \<times> controller" where
  "makeCall env destination s =
     (case user s of
        None \<Rightarrow> (Rejected (ErrorObj (js ''You must be signed in to place calls'')), s)
      | Some u \<Rightarrow>
          (let trimmedDestination = js_trim destination
           in if trimmedDestination = []
              then (Resolved False, s\<lparr> lastError := Some (js ''Enter a number to call'') \<rparr>)
              else (case initializeClient (tokenFetch env) (registerOutcome env) s of
                      (Rejected e, s1) \<Rightarrow> (Rejected e, s1)
                    | (Resolved device, s1) \<Rightarrow> makeCall_dial env u device trimmedDestination s1)))"

text \<open>
  \<open>hangUp\<close>. The SDK's \<open>disconnect\<close> and \<open>disconnectAll\<close> are taken to return normally;
  the notifications they cause are delivered by \<open>emit\<close>.
\<close>

definition hangUp :: "controller \<Rightarrow> controller" where
  "hangUp s =
     (let s1 = (case activeConnectionRef s of
                  None \<Rightarrow> s
                | Some c \<Rightarrow> s\<lparr> sdkCalls := sdkCalls s @ [ConnDisconnect c] \<rparr>);
          s2 = (case deviceRef s1 of
                  None \<Rightarrow> s1
                | Some d \<Rightarrow> s1\<lparr> sdkCalls := sdkCalls s1 @ [DisconnectAll d] \<rparr>);
          s3 = finalizeActiveLog (user s2) Completed Map.empty s2
      in s3\<lparr> callState := idle, isMuted := False, isOnHold := False, activeNumber := None,
             incomingNumber := None, callNoteRef := [] \<rparr>)"

definition thrownMessage :: "thrown \<Rightarrow> jsstring \<Rightarrow> jsstring" where
  "thrownMessage e fallback = (case e of ErrorObj m \<Rightarrow> m | OtherValue \<Rightarrow> fallback)"

definition acceptIncomingCall :: "CallEnv \<Rightarrow> controller \<Rightarrow> bool promise \<times> controller" where
  "acceptIncomingCall env s =
     (case incomingConnectionRef s of
        None \<Rightarrow> (Resolved False, s)
      | Some ic \<Rightarrow>
          (case initializeClient (tokenFetch env) (registerOutcome env) s of
             (Rejected e, s1) \<Rightarrow> (Rejected e, s1)
           | (Resolved device, s1) \<Rightarrow>
               (let s2 = s1\<lparr> sdkCalls := sdkCalls s1 @ [ConnAccept ic] \<rparr>
                in case acceptOutcome env of
                     Some e \<Rightarrow>
                       (let msg = thrownMessage e (js ''Failed to answer call'')
                        in (Resolved False,
                            pushEvent (js ''Unable to accept call: '' @ msg)
                              (s2\<lparr> lastError := Some msg \<rparr>)))
                   | None \<Rightarrow>
                       (let fromNumber = (case normalisePhoneNumber (conn_From s2 ic) of
                                            Some n \<Rightarrow> Some n
                                          | None \<Rightarrow> conn_From s2 ic);
                            s3 = s2\<lparr> activeConnectionRef := Some ic,
                                    incomingConnectionRef := None,
                                    activeNumber := fromNumber, incomingNumber := None,
                                    callState := active,
                                    isMuted := orElse (conn_isMuted s2 ic) False,
                                    isOnHold := orElse (conn_isOnHold s2 ic) False \<rparr>;
                            s4 = pushEvent (js ''Accepted incoming call from ''
                                              @ orElse fromNumber (js ''unknown'')) s3;
                            s5 = s4\<lparr> callNoteRef := [] \<rparr>
                        in (Resolved True,
                            (case user s5 of
                               None \<Rightarrow> s5
                             | Some u \<Rightarrow>
                                 createLog env (uid u)
                                   ([''direction'' \<mapsto> FString (js ''inbound''),
                                     ''status'' \<mapsto> FString (js ''active'')]
                                    ++ (case fromNumber of
                                          None \<Rightarrow> Map.empty
                                        | Some n \<Rightarrow> [''from'' \<mapsto> FString n])) s5))))))"

definition rejectIncomingCall ::
  "thrown option \<Rightarrow> jsstring option \<Rightarrow> controller \<Rightarrow> bool promise \<times> controller" where
  "rejectIncomingCall outcome reason s =
     (case incomingConnectionRef s of
        None \<Rightarrow> (Resolved False, s)
      | Some ic \<Rightarrow>
          (let s1 = s\<lparr> sdkCalls := sdkCalls s @ [ConnReject ic] \<rparr>
           in case outcome of
                Some e \<Rightarrow>
                  (let msg = thrownMessage e (js ''Failed to reject call'')
                   in (Resolved False,
                       pushEvent (js ''Unable to reject call: '' @ msg) (s1\<lparr> lastError := Some msg \<rparr>)))
              | None \<Rightarrow>
                  (Resolved True,
                   pushEvent (js ''Rejected incoming call''
                                @ (if truthy reason then js '': '' @ orElse reason [] else []))
                     (s1\<lparr> incomingConnectionRef := None, callState := idle,
                         incomingNumber := None \<rparr>))))"

text \<open>
  The media controls. \<open>outcome\<close> is what the SDK method throws, if anything; the call into
  the SDK is recorded whether or not it throws.
\<close>

definition sdk_setMuted :: "nat \<Rightarrow> bool \<Rightarrow> controller \<Rightarrow> controller" where
  "sdk_setMuted c b s =
     (case connections s c of
        None \<Rightarrow> s
      | Some k \<Rightarrow> s\<lparr> connections := (connections s)(c \<mapsto> k\<lparr> sdk_muted := b \<rparr>) \<rparr>)"

definition sdk_setOnHold :: "nat \<Rightarrow> bool \<Rightarrow> controller \<Rightarrow> controller" where
  "sdk_setOnHold c b s =
     (case connections s c of
        None \<Rightarrow> s
      | Some k \<Rightarrow> s\<lparr> connections := (connections s)(c \<mapsto> k\<lparr> sdk_onHold := b \<rparr>) \<rparr>)"

definition toggleMute :: "thrown option \<Rightarrow> controller \<Rightarrow> bool promise \<times> controller" where
  "toggleMute outcome s =
     (case activeConnectionRef s of
        None \<Rightarrow> (Resolved False, s)
      | Some c \<Rightarrow>
          (let nextMuted = \<not> orElse (conn_isMuted s c) (isMuted s);
               s1 = s\<lparr> sdkCalls := sdkCalls s @ [ConnMute c nextMuted] \<rparr>
           in case outcome of
                None \<Rightarrow>
                  (Resolved True,
                   pushEvent (if nextMuted then js ''Call muted'' else js ''Call unmuted'')
                     ((sdk_setMuted c nextMuted s1)\<lparr> isMuted := nextMuted \<rparr>))
              | Some e \<Rightarrow>
                  (let msg = thrownMessage e (js ''Failed to toggle mute'')
                   in (Resolved False,
                       pushEvent (js ''Mute toggle failed: '' @ msg) (s1\<lparr> lastError := Some msg \<rparr>)))))"

definition toggleHold_failed :: "jsstring \<Rightarrow> controller \<Rightarrow> bool promise \<times> controller" where
  "toggleHold_failed msg s =
     (Resolved False, pushEvent (js ''Hold toggle failed: '' @ msg) (s\<lparr> lastError := Some msg \<rparr>))"

text \<open>\<open>connection.isOnHold?.() ?? isOnHold\<close>: the hold state that \<open>toggleHold\<close> negates.\<close>

definition currentHold :: "controller \<Rightarrow> nat \<Rightarrow> bool" where
  "currentHold s c = orElse (conn_isOnHold s c) (isOnHold s)"

definition toggleHold :: "thrown option \<Rightarrow> controller \<Rightarrow> bool promise \<times> controller" where
  "toggleHold outcome s =
     (case activeConnectionRef s of
        None \<Rightarrow> (Resolved False, s)
      | Some c \<Rightarrow>
          (let nextHold = \<not> currentHold s c
           in if \<not> conn_has_hold s c
              then toggleHold_failed (js ''Hold is not supported for this call'') s
              else
                (let s1 = s\<lparr> sdkCalls := sdkCalls s @ [ConnHold c nextHold] \<rparr>
                 in case outcome of
                      Some e \<Rightarrow> toggleHold_failed (thrownMessage e (js ''Failed to toggle hold'')) s1
                    | None \<Rightarrow>
                        (Resolved True,
                         pushEvent (if nextHold then js ''Call placed on hold'' else js ''Call resumed'')
                           ((sdk_setOnHold c nextHold s1)\<lparr> isOnHold := nextHold \<rparr>)))))"

text \<open>\<open>sendDigits\<close>; \<open>digits\<close> is \<open>None\<close> for an argument that is not a string.\<close>

definition sendDigits ::
  "thrown option \<Rightarrow> jsstring option \<Rightarrow> controller \<Rightarrow> bool promise \<times> controller" where
  "sendDigits outcome digits s =
     (case activeConnectionRef s of
        None \<Rightarrow> (Resolved False, s)
      | Some c \<Rightarrow>
          (let cleaned = (case digits of Some ds \<Rightarrow> cleanDigits ds | None \<Rightarrow> [])
           in if cleaned = [] then (Resolved False, s)
              else
                (let s1 = s\<lparr> sdkCalls := sdkCalls s @ [ConnSendDigits c cleaned] \<rparr>
                 in case outcome of
                      None \<Rightarrow> (Resolved True, pushEvent (js ''Sent DTMF '' @ cleaned) s1)
                    | Some e \<Rightarrow>
                        (let msg = thrownMessage e (js ''Failed to send tones'')
                         in (Resolved False,
                             pushEvent (js ''DTMF failed: '' @ msg) (s1\<lparr> lastError := Some msg \<rparr>))))))"

section \<open>Concurrent calls of \<open>initializeClient\<close>\<close>

text \<open>
  Calls issued back to back, with no \<open>await\<close> between them: each runs its first segment
  before any token arrives (\<open>issue\<close>). The tokens then arrive and each suspended call runs
  its second segment (\<open>deliver\<close>), in the order given; its result is the device that the
  call returns once its own \<open>register()\<close> has resolved. \<open>constructed\<close> and \<open>registrations\<close>
  read the devices constructed and the \<open>register()\<close> calls off the record of SDK calls.
\<close>

fun issue :: "nat \<Rightarrow> controller \<Rightarrow> init_step list \<times> controller" where
  "issue 0 s = ([], s)"
| "issue (Suc n) s =
     (case initializeClient_begin s of
        (r, s1) \<Rightarrow> (case issue n s1 of (rs, s2) \<Rightarrow> (r # rs, s2)))"

fun deliver ::
  "(jsstring \<times> (jsstring option \<times> AuthUser option) \<times> TokenResponse) list \<Rightarrow> controller
     \<Rightarrow> nat list \<times> controller" where
  "deliver [] s = ([], s)"
| "deliver ((ident, captured, resp) # ps) s =
     (case initializeClient_resume ident captured resp s of
        (d, s1) \<Rightarrow> (case deliver ps s1 of (ds, s2) \<Rightarrow> (d # ds, s2)))"

fun constructed :: "sdk_call list \<Rightarrow> nat list" where
  "constructed [] = []"
| "constructed (NewDevice d t # cs) = d # constructed cs"
| "constructed (c # cs) = constructed cs"

fun registrations :: "sdk_call list \<Rightarrow> nat list" where
  "registrations [] = []"
| "registrations (Register d # cs) = d # registrations cs"
| "registrations (c # cs) = registrations cs"

section \<open>Runs of the controller\<close>

text \<open>
  What can happen to the provider, one step at a time: the signed-in user changes, an
  operation of the public surface is called, or the environment delivers something (an
  event of a device or of a call object, a new inbound call object, the rejection of an
  update by Firestore, the passing of time). An operation is one step from its call to its
  return; the two segments of \<open>initializeClient\<close> are steps of their own as well, so that
  runs with overlapping initialisations are included.
\<close>

datatype action =
    Act_authChanged "AuthUser option"
  | Act_initializeClient "thrown + TokenResponse" "thrown option"
  | Act_initializeClient_begin
  | Act_initializeClient_resume jsstring "jsstring option \<times> AuthUser option" TokenResponse
  | Act_clearDevice
  | Act_makeCall CallEnv jsstring
  | Act_hangUp
  | Act_acceptIncomingCall CallEnv
  | Act_rejectIncomingCall "thrown option" "jsstring option"
  | Act_toggleMute "thrown option"
  | Act_toggleHold "thrown option"
  | Act_sendDigits "thrown option" "jsstring option"
  | Act_setCallNote jsstring
  | Act_resetEvents
  | Act_deviceEvent nat device_event
  | Act_connectionEvent nat conn_event "jsstring option"
  | Act_newConnection Connection
  | Act_updateRejected
  | Act_advance int

fun step :: "action \<Rightarrow> controller \<Rightarrow> controller" where
  "step (Act_authChanged u) s = s\<lparr> user := u \<rparr>"
| "step (Act_initializeClient f r) s = snd (initializeClient f r s)"
| "step Act_initializeClient_begin s = snd (initializeClient_begin s)"
| "step (Act_initializeClient_resume i c r) s = snd (initializeClient_resume i c r s)"
| "step Act_clearDevice s = clearDevice s"
| "step (Act_makeCall env dest) s = snd (makeCall env dest s)"
| "step Act_hangUp s = hangUp s"
| "step (Act_acceptIncomingCall env) s = snd (acceptIncomingCall env s)"
| "step (Act_rejectIncomingCall out reason) s = snd (rejectIncomingCall out reason s)"
| "step (Act_toggleMute out) s = snd (toggleMute out s)"
| "step (Act_toggleHold out) s = snd (toggleHold out s)"
| "step (Act_sendDigits out digits) s = snd (sendDigits out digits s)"
| "step (Act_setCallNote note) s = setCallNote note s"
| "step Act_resetEvents s = resetEvents s"
| "step (Act_deviceEvent d ev) s = device_emit d ev s"
| "step (Act_connectionEvent c ev err) s = emit c ev err s"
| "step (Act_newConnection k) s = snd (sdk_newConnection k s)"
| "step Act_updateRejected s = finalizeActiveLog_rejected s"
| "step (Act_advance ms) s = advance ms s"

fun run :: "action list \<Rightarrow> controller \<Rightarrow> controller" where
  "run [] s = s"
| "run (a # as) s = run as (step a s)"

text \<open>
  The feed within its capacity, and the identifiers of the logs for which an update was
  sent so far (\<open>finalized\<close>), in the order of the updates.
\<close>

definition feedBounded :: "controller \<Rightarrow> bool" where
  "feedBounded s \<longleftrightarrow> length (events s) \<le> MAX_EVENT_ENTRIES"

fun finalized :: "firestore_call list \<Rightarrow> jsstring list" where
  "finalized [] = []"
| "finalized (UpdateDoc u l p # cs) = l # finalized cs"
| "finalized (AddDoc u p # cs) = finalized cs"

section \<open>Concrete runs\<close>

text \<open>
  A signed-in agent, a token answer, a call object as the Twilio SDK provides it (it has
  \<open>isMuted\<close> but neither \<open>isOnHold\<close> nor \<open>hold\<close>), one that supports hold, and an environment
  in which every request succeeds. \<open>readyState\<close> is the controller after a successful
  \<open>initializeClient\<close> and the device's \<open>ready\<close> event, at time 1000; \<open>dialling k\<close> follows a
  \<open>makeCall\<close> whose call object is \<open>k\<close>, \<open>connected k\<close> the device's \<open>connect\<close> event for it.
\<close>

definition demoUser :: AuthUser where
  "demoUser = \<lparr> uid = js ''u1'', email = Some (js ''agent@example.com'') \<rparr>"

definition demoToken :: TokenResponse where
  "demoToken = \<lparr> token = js ''tok'', identity = Some (js ''agent@example.com''),
                 expiresIn = Some 3600 \<rparr>"

definition plainConnection :: Connection where
  "plainConnection =
     \<lparr> parameters_From = None, parameters_To = None, has_isMuted = True,
       has_isOnHold = False, has_hold = False, sdk_muted = False, sdk_onHold = False \<rparr>"

definition holdConnection :: Connection where
  "holdConnection =
     \<lparr> parameters_From = None, parameters_To = None, has_isMuted = True,
       has_isOnHold = True, has_hold = True, sdk_muted = False, sdk_onHold = False \<rparr>"

definition demoEnv :: "jsstring \<Rightarrow> Connection \<Rightarrow> CallEnv" where
  "demoEnv logId k =
     \<lparr> tokenFetch = Inr demoToken, registerOutcome = None, addDocOutcome = Inr logId,
       connectOutcome = Inr k, acceptOutcome = None \<rparr>"

definition signedIn :: controller where
  "signedIn = initial (Some demoUser) True 1000"

definition readyState :: controller where
  "readyState = device_emit 0 Dev_ready (snd (initializeClient (Inr demoToken) None signedIn))"

definition dialling :: "Connection \<Rightarrow> controller" where
  "dialling k = snd (makeCall (demoEnv (js ''L1'') k) (js ''+12025550123'') readyState)"

definition connected :: "Connection \<Rightarrow> controller" where
  "connected k = device_emit 0 (Dev_connect 0) (emit 0 Ev_ringing None (dialling k))"

text \<open>
  An environment whose token endpoint fails, one in which \<open>device.connect\<close> throws, and the
  controller after the connected call was hung up five seconds later and a second number
  was dialled.
\<close>

definition failingEnv :: CallEnv where
  "failingEnv =
     (demoEnv (js ''L1'') plainConnection)\<lparr> tokenFetch := Inl (ErrorObj (js ''token endpoint down'')) \<rparr>"

definition connectFailingEnv :: CallEnv where
  "connectFailingEnv =
     (demoEnv (js ''L1'') plainConnection)\<lparr> connectOutcome := Inl (ErrorObj (js ''connect failed'')) \<rparr>"

definition redialled :: controller where
  "redialled =
     snd (makeCall (demoEnv (js ''L2'') plainConnection) (js ''+12025550199'')
            (hangUp (advance 5000 (connected plainConnection))))"

text \<open>
  A first call whose log could not be created (\<open>addDoc\<close> was rejected): it connects,
  and its \<open>disconnect\<close> arrives a minute later. Ten minutes after that a second number is
  dialled with log \<open>L2\<close>. \<open>overlapped\<close> is the controller after a second \<open>makeCall\<close> while
  the first call, with log \<open>L1\<close>, is still being dialled. \<open>hungUp k\<close> is the connected call
  hung up five seconds later, \<open>cancelledCall k\<close> the dialled call cancelled by the SDK.
\<close>

definition unloggedEnv :: CallEnv where
  "unloggedEnv =
     (demoEnv (js ''L1'') plainConnection)\<lparr> addDocOutcome := Inl (ErrorObj (js ''permission denied'')) \<rparr>"

definition unloggedCallEnded :: controller where
  "unloggedCallEnded =
     emit 0 Ev_disconnect None (advance 60000
       (device_emit 0 (Dev_connect 0)
          (snd (makeCall unloggedEnv (js ''+12025550123'') readyState))))"

definition secondDial :: controller where
  "secondDial =
     snd (makeCall (demoEnv (js ''L2'') plainConnection) (js ''+12025550199'')
            (advance 600000 unloggedCallEnded))"

definition overlapped :: controller where
  "overlapped =
     snd (makeCall (demoEnv (js ''L2'') plainConnection) (js ''+12025550199'')
            (dialling plainConnection))"

definition hungUp :: "Connection \<Rightarrow> controller" where
  "hungUp k = hangUp (advance 5000 (connected k))"

definition cancelledCall :: "Connection \<Rightarrow> controller" where
  "cancelledCall k = emit 0 Ev_cancel None (dialling k)"

section \<open>Rules for the evaluation of concrete runs\<close>

lemmas ctrl_defs = initial_def initializeClient_def initializeClient_begin_def initializeClient_request_def
  userIdentity_def
  initializeClient_resume_def scheduleTokenRefresh_def clearDevice_def clearTimeout_def pushEvent_def pushEntry_def
  MAX_EVENT_ENTRIES_def device_emit_def deviceHandler_def emit_def runHandler_def attachOnce_def
  makeCall_def makeCall_dial_def createLog_def createUserCallLog_def createUserCallLog_payload_def
  finalizeActiveLog_def finalizeUserCallLog_def finalizeUpdates_def durationSeconds_def roundSeconds_def truthy_def
  hangUp_def advance_def orElse_def conn_To_def conn_From_def conn_isMuted_def conn_isOnHold_def conn_has_hold_def
  sanitizeIdentity_def js_trim_def isWhiteSpace_def isIdentityChar_def isDigit_def startsWithPlus_def keepDialChars_def
  js_def statusString_def

lemmas demo_defs = demoUser_def demoToken_def plainConnection_def holdConnection_def demoEnv_def
  signedIn_def readyState_def dialling_def connected_def failingEnv_def redialled_def
  connectFailingEnv_def unloggedEnv_def unloggedCallEnded_def secondDial_def overlapped_def hungUp_def cancelledCall_def

lemmas step_defs = initializeClient_def initializeClient_begin_def device_emit_def deviceHandler_def
  emit_def runHandler_def attachOnce_def makeCall_def makeCall_dial_def createLog_def
  createUserCallLog_def finalizeActiveLog_def finalizeUserCallLog_def truthy_def pushEvent_def
  hangUp_def advance_def orElse_def

lemma signedIn_fields:
  "user signedIn = Some demoUser"
  "deviceRef signedIn = None"
  "\<not> isClientReady signedIn"
  "callState signedIn = idle"
  "nextDevice signedIn = 0"
  "sdkCalls signedIn = []"
  by (simp_all add: demo_defs ctrl_defs)

lemma ready_fields:
  "user readyState = Some demoUser"
  "deviceRef readyState = Some 0"
  "isClientReady readyState"
  "deviceListeners readyState 0 = Some (js ''agent@example.com'', None, Some demoUser)"
  "firebaseDb readyState"
  "connListeners readyState = []"
  "nextConnection readyState = 0"
  "constructed (sdkCalls readyState) = [0]"
  "registrations (sdkCalls readyState) = [0]"
  by (simp_all add: demo_defs ctrl_defs Let_def)

section \<open>White space and tone characters\<close>

lemma js_trim_decompose:
  "\<exists>l r. s = l @ js_trim s @ r \<and> (\<forall>c \<in> set l. isWhiteSpace c) \<and> (\<forall>c \<in> set r. isWhiteSpace c)"
proof -
  let ?a = "takeWhile isWhiteSpace s"
  let ?m = "dropWhile isWhiteSpace s"
  let ?b = "rev (takeWhile isWhiteSpace (rev ?m))"
  have "rev (js_trim s @ ?b) = rev ?m"
    by (simp add: js_trim_def)
  then have m: "?m = js_trim s @ ?b"
    by (simp only: rev_is_rev_conv)
  have "s = ?a @ ?m" by simp
  with m have "s = ?a @ js_trim s @ ?b" by simp
  moreover have "\<forall>c \<in> set ?a. isWhiteSpace c"
    by (auto dest: set_takeWhileD)
  moreover have "\<forall>c \<in> set ?b. isWhiteSpace c"
    by (auto dest: set_takeWhileD)
  ultimately show ?thesis by blast
qed

lemma js_trim_ends:
  assumes "js_trim s \<noteq> []"
  shows "\<not> isWhiteSpace (hd (js_trim s)) \<and> \<not> isWhiteSpace (last (js_trim s))"
proof -
  let ?m = "dropWhile isWhiteSpace s"
  let ?d = "dropWhile isWhiteSpace (rev ?m)"
  have t: "js_trim s = rev ?d" by (simp add: js_trim_def)
  with assms have d: "?d \<noteq> []" by simp
  then have "\<not> isWhiteSpace (hd ?d)" by (rule hd_dropWhile)
  with d t have l: "\<not> isWhiteSpace (last (js_trim s))" by (simp add: last_rev)
  have m: "?m \<noteq> []"
  proof
    assume "?m = []"
    then have "?d = []" by (metis dropWhile.simps(1) rev.simps(1))
    with d show False by simp
  qed
  then have hm: "\<not> isWhiteSpace (hd ?m)" by (rule hd_dropWhile)
  have "last ?d = last (rev ?m)"
  proof -
    have "last (takeWhile isWhiteSpace (rev ?m) @ ?d) = last ?d"
      using d by (rule last_appendR)
    then show ?thesis by simp
  qed
  with m have "last ?d = hd ?m" by (simp add: last_rev)
  with d t hm have "\<not> isWhiteSpace (hd (js_trim s))" by (simp add: hd_rev)
  with l show ?thesis by simp
qed


section \<open>Event feed: capacity\<close>

lemma length_pushEntry: "length (pushEntry e prev) \<le> MAX_EVENT_ENTRIES"
  by (simp add: pushEntry_def)

lemma fb_pushEvent [simp]: "feedBounded (pushEvent m s)"
  by (simp add: feedBounded_def pushEvent_def pushEntry_def)

lemma fb_update [simp]:
  "feedBounded (s\<lparr> connectionStatus := a1 \<rparr>) = feedBounded s"
  "feedBounded (s\<lparr> callState := a2 \<rparr>) = feedBounded s"
  "feedBounded (s\<lparr> isClientReady := a3 \<rparr>) = feedBounded s"
  "feedBounded (s\<lparr> isMuted := a4 \<rparr>) = feedBounded s"
  "feedBounded (s\<lparr> isOnHold := a5 \<rparr>) = feedBounded s"
  "feedBounded (s\<lparr> lastError := a6 \<rparr>) = feedBounded s"
  "feedBounded (s\<lparr> incomingNumber := a7 \<rparr>) = feedBounded s"
  "feedBounded (s\<lparr> activeNumber := a8 \<rparr>) = feedBounded s"
  "feedBounded (s\<lparr> user := a9 \<rparr>) = feedBounded s"
  "feedBounded (s\<lparr> identityRef := b1 \<rparr>) = feedBounded s"
  "feedBounded (s\<lparr> deviceRef := b2 \<rparr>) = feedBounded s"
  "feedBounded (s\<lparr> activeConnectionRef := b3 \<rparr>) = feedBounded s"
  "feedBounded (s\<lparr> incomingConnectionRef := b4 \<rparr>) = feedBounded s"
  "feedBounded (s\<lparr> tokenRefreshTimerRef := b5 \<rparr>) = feedBounded s"
  "feedBounded (s\<lparr> activeLogIdRef := b6 \<rparr>) = feedBounded s"
  "feedBounded (s\<lparr> activeCallStartedAtRef := b7 \<rparr>) = feedBounded s"
  "feedBounded (s\<lparr> callNoteRef := b8 \<rparr>) = feedBounded s"
  "feedBounded (s\<lparr> now := b9 \<rparr>) = feedBounded s"
  "feedBounded (s\<lparr> sdkCalls := c1 \<rparr>) = feedBounded s"
  "feedBounded (s\<lparr> firestoreCalls := c2 \<rparr>) = feedBounded s"
  "feedBounded (s\<lparr> nextDevice := c3 \<rparr>) = feedBounded s"
  "feedBounded (s\<lparr> nextConnection := c4 \<rparr>) = feedBounded s"
  "feedBounded (s\<lparr> connections := c5 \<rparr>) = feedBounded s"
  "feedBounded (s\<lparr> connListeners := c6 \<rparr>) = feedBounded s"
  "feedBounded (s\<lparr> deviceListeners := c7 \<rparr>) = feedBounded s"
  "feedBounded (s\<lparr> timers := c8 \<rparr>) = feedBounded s"
  "feedBounded (s\<lparr> nextTimer := c9 \<rparr>) = feedBounded s"
  by (simp_all add: feedBounded_def)

lemma fb_finalizeActiveLog [simp]: "feedBounded s \<Longrightarrow> feedBounded (finalizeActiveLog cu st x s)"
  by (simp add: finalizeActiveLog_def Let_def split: option.split sum.split)

lemma fb_runHandler [simp]: "feedBounded s \<Longrightarrow> feedBounded (runHandler h c e s)"
  by (cases h) (simp_all add: runHandler_def Let_def)

lemma fb_fire: "feedBounded s \<Longrightarrow> feedBounded (fire ls e s)"
  by (induction ls e s rule: fire.induct) simp_all

lemma fb_emit [simp]: "feedBounded s \<Longrightarrow> feedBounded (emit c ev e s)"
  by (simp add: emit_def fb_fire)

lemma fb_device_emit [simp]: "feedBounded s \<Longrightarrow> feedBounded (device_emit d ev s)"
  by (cases ev) (simp_all add: device_emit_def deviceHandler_def attachOnce_def Let_def split: option.split)

lemma fb_clearDevice [simp]: "feedBounded s \<Longrightarrow> feedBounded (clearDevice s)"
  by (simp add: clearDevice_def clearTimeout_def Let_def split: option.split)

lemma fb_begin [simp]: "feedBounded s \<Longrightarrow> feedBounded (snd (initializeClient_begin s))"
  by (simp add: initializeClient_begin_def initializeClient_request_def Let_def split: option.split)

lemma fb_schedule [simp]: "feedBounded s \<Longrightarrow> feedBounded (scheduleTokenRefresh e i s)"
  by (simp add: scheduleTokenRefresh_def clearTimeout_def Let_def split: option.split)

lemma fb_resume [simp]: "feedBounded s \<Longrightarrow> feedBounded (snd (initializeClient_resume i c r s))"
  by (simp add: initializeClient_resume_def Let_def)

lemma fb_initializeClient [simp]:
  assumes "feedBounded s"
  shows "feedBounded (snd (initializeClient f r s))"
proof -
  obtain st s1 where b: "initializeClient_begin s = (st, s1)"
    by (cases "initializeClient_begin s")
  with fb_begin [OF assms] have s1: "feedBounded s1" by simp
  show ?thesis
  proof (cases st)
    case (Settled p)
    with b s1 show ?thesis by (simp add: initializeClient_def)
  next
    case (AwaitingToken ident)
    with b s1 fb_resume [of s1 ident "(activeNumber s, user s)"] show ?thesis
      by (simp add: initializeClient_def split_beta split: sum.split option.split)
  qed
qed

lemma fb_createLog [simp]: "feedBounded s \<Longrightarrow> feedBounded (createLog env u p s)"
  by (simp add: createLog_def Let_def split: sum.split)

lemma fb_dial [simp]: "feedBounded s \<Longrightarrow> feedBounded (snd (makeCall_dial env u d t s))"
  by (simp add: makeCall_dial_def attachOnce_def Let_def split: sum.split)

lemma fb_makeCall [simp]:
  assumes "feedBounded s"
  shows "feedBounded (snd (makeCall env dest s))"
proof -
  obtain p s1 where i: "initializeClient (tokenFetch env) (registerOutcome env) s = (p, s1)"
    by (cases "initializeClient (tokenFetch env) (registerOutcome env) s")
  with fb_initializeClient [OF assms, of "tokenFetch env" "registerOutcome env"]
  have s1: "feedBounded s1" by simp
  with assms i show ?thesis
    by (cases p) (simp_all add: makeCall_def Let_def split: option.split)
qed

lemma fb_hangUp [simp]: "feedBounded s \<Longrightarrow> feedBounded (hangUp s)"
  by (simp add: hangUp_def Let_def split: option.split)

lemma fb_accept [simp]:
  assumes "feedBounded s"
  shows "feedBounded (snd (acceptIncomingCall env s))"
proof -
  obtain p s1 where i: "initializeClient (tokenFetch env) (registerOutcome env) s = (p, s1)"
    by (cases "initializeClient (tokenFetch env) (registerOutcome env) s")
  with fb_initializeClient [OF assms, of "tokenFetch env" "registerOutcome env"]
  have s1: "feedBounded s1" by simp
  with assms i show ?thesis
    by (cases p) (simp_all add: acceptIncomingCall_def Let_def split: option.split)
qed

lemma fb_reject [simp]: "feedBounded s \<Longrightarrow> feedBounded (snd (rejectIncomingCall out r s))"
  by (simp add: rejectIncomingCall_def Let_def split: option.split)

lemma fb_toggleMute [simp]: "feedBounded s \<Longrightarrow> feedBounded (snd (toggleMute out s))"
  by (simp add: toggleMute_def sdk_setMuted_def Let_def split: option.split)

lemma fb_toggleHold [simp]: "feedBounded s \<Longrightarrow> feedBounded (snd (toggleHold out s))"
  by (simp add: toggleHold_def toggleHold_failed_def sdk_setOnHold_def Let_def split: option.split)

lemma fb_sendDigits [simp]: "feedBounded s \<Longrightarrow> feedBounded (snd (sendDigits out ds s))"
  by (simp add: sendDigits_def Let_def split: option.split)

lemma fb_step: "feedBounded s \<Longrightarrow> feedBounded (step a s)"
  by (cases a)
     (simp_all add: setCallNote_def resetEvents_def sdk_newConnection_def
        finalizeActiveLog_rejected_def advance_def, simp add: feedBounded_def)

lemma fb_run: "feedBounded s \<Longrightarrow> feedBounded (run as s)"
  by (induction as arbitrary: s) (simp_all add: fb_step)

lemma feed_never_exceeds: "length (events (run as (initial u db t))) \<le> 100"
  using fb_run [of "initial u db t" as]
  by (simp add: feedBounded_def initial_def MAX_EVENT_ENTRIES_def)

text \<open>
  C7. \<open>pushEvent\<close> puts the new entry at the head of the feed and keeps the first 100
  entries of the result, so the feed never holds more than 100 entries after a push. With
  fewer than 100 entries before, all of them follow the new entry in their order; with
  exactly 100 the last, oldest one is dropped and the other 99 follow in their order.
  The feed starts empty and nothing but \<open>pushEvent\<close> adds to it: after any run of
  operations and notifications from the initial state it holds at most 100 entries.
\<close>

theorem pushEvent_bounded:
  "length (events (pushEvent msg s)) \<le> 100
   \<and> events (pushEvent msg s)
       = \<lparr> entry_id = idsDrawn s, at = now s, message = msg \<rparr> # take 99 (events s)
   \<and> (length (events s) < 100 \<longrightarrow>
        events (pushEvent msg s)
          = \<lparr> entry_id = idsDrawn s, at = now s, message = msg \<rparr> # events s)
   \<and> (length (events s) = 100 \<longrightarrow>
        events (pushEvent msg s)
          = \<lparr> entry_id = idsDrawn s, at = now s, message = msg \<rparr> # butlast (events s)
        \<and> length (events (pushEvent msg s)) = 100)
   \<and> length (events (run acts (initial u db t))) \<le> 100"
proof -
  have e: "events (pushEvent msg s)
       = \<lparr> entry_id = idsDrawn s, at = now s, message = msg \<rparr> # take 99 (events s)"
    by (simp add: pushEvent_def pushEntry_def MAX_EVENT_ENTRIES_def)
  have b: "take 99 xs = butlast xs" if "length xs = 100" for xs :: "EventEntry list"
    using that by (simp add: butlast_conv_take)
  from e b feed_never_exceeds [of acts u db t] show ?thesis by simp
qed

theorem pushEvent_bounded_witness:
  "length (replicate 100 \<lparr> entry_id = 0, at = 0, message = [] \<rparr>) = 100
   \<and> events (pushEvent (js ''x'') ((initial None True 5)\<lparr> events := replicate 100 \<lparr> entry_id = 0, at = 0, message = [] \<rparr> \<rparr>))
      = \<lparr> entry_id = 0, at = 5, message = js ''x'' \<rparr> # replicate 99 \<lparr> entry_id = 0, at = 0, message = [] \<rparr>
   \<and> events (pushEvent (js ''x'') (initial None True 5)) = [\<lparr> entry_id = 0, at = 5, message = js ''x'' \<rparr>]"
  using pushEvent_bounded [of "js ''x''" "(initial None True 5)\<lparr> events := replicate 100 \<lparr> entry_id = 0, at = 0, message = [] \<rparr> \<rparr>"]
    pushEvent_bounded [of "js ''x''" "initial None True 5"]
  by (simp add: initial_def butlast_conv_take)

section \<open>Call log service: the note of a finalised log\<close>

text \<open>
  C10. Whenever \<open>finalizeUserCallLog\<close> writes (Firebase is configured; otherwise it throws
  before writing), the payload handed to \<open>updateDoc\<close> carries \<open>endedAt\<close> as the server
  timestamp and leaves every field other than \<open>note\<close> and \<open>endedAt\<close> as given. Its \<open>note\<close>
  is the given note with the white space at both ends removed; when nothing remains, or the
  note is not a string, it is the \<open>deleteField()\<close> sentinel and never the empty string, so
  that the stored document ends up without a \<open>note\<close> field.
\<close>

theorem finalizeUserCallLog_note:
  "\<exists>p. finalizeUserCallLog True userId logId updates = Inr (UpdateDoc userId logId p)
      \<and> p ''endedAt'' = Some FServerTimestamp
      \<and> p ''note'' =
           (case updates ''note'' of
              Some (FString n) \<Rightarrow> if js_trim n = [] then Some FDeleteField else Some (FString (js_trim n))
            | _ \<Rightarrow> Some FDeleteField)
      \<and> p ''note'' \<noteq> Some (FString [])
      \<and> (\<forall>k. k \<noteq> ''note'' \<and> k \<noteq> ''endedAt'' \<longrightarrow> p k = updates k)
      \<and> firestore_apply t p stored ''note'' =
           (case updates ''note'' of
              Some (FString n) \<Rightarrow> if js_trim n = [] then None else Some (FString (js_trim n))
            | _ \<Rightarrow> None)
      \<and> firestore_apply t p stored ''endedAt'' = Some (FNumber t)
      \<and> (\<forall>n. updates ''note'' = Some (FString n) \<longrightarrow>
             (\<exists>l r. n = l @ js_trim n @ r
                \<and> (\<forall>c \<in> set l. isWhiteSpace c) \<and> (\<forall>c \<in> set r. isWhiteSpace c))
             \<and> (js_trim n \<noteq> [] \<longrightarrow>
                  \<not> isWhiteSpace (hd (js_trim n)) \<and> \<not> isWhiteSpace (last (js_trim n))))"
proof -
  let ?note = "case updates ''note'' of Some (FString n) \<Rightarrow> js_trim n | _ \<Rightarrow> []"
  let ?p = "updates(''note'' \<mapsto> (if length ?note > 0 then FString ?note else FDeleteField),
                    ''endedAt'' \<mapsto> FServerTimestamp)"
  have 1: "finalizeUserCallLog True userId logId updates = Inr (UpdateDoc userId logId ?p)"
    by (simp add: finalizeUserCallLog_def finalizeUserCallLog_payload_def Let_def)
  have 2: "?p ''endedAt'' = Some FServerTimestamp"
    by simp
  have 3: "?p ''note'' =
           (case updates ''note'' of
              Some (FString n) \<Rightarrow> if js_trim n = [] then Some FDeleteField else Some (FString (js_trim n))
            | _ \<Rightarrow> Some FDeleteField)"
    by (simp split: option.split fs_value.split)
  have 4: "?p ''note'' \<noteq> Some (FString [])"
    by (simp split: option.split fs_value.split)
  have 5: "\<forall>k. k \<noteq> ''note'' \<and> k \<noteq> ''endedAt'' \<longrightarrow> ?p k = updates k"
    by simp
  have 6: "firestore_apply t ?p stored ''note'' =
           (case updates ''note'' of
              Some (FString n) \<Rightarrow> if js_trim n = [] then None else Some (FString (js_trim n))
            | _ \<Rightarrow> None)"
    by (simp add: firestore_apply_def split: option.split fs_value.split)
  have 7: "firestore_apply t ?p stored ''endedAt'' = Some (FNumber t)"
    by (simp add: firestore_apply_def)
  have 8: "\<forall>n. updates ''note'' = Some (FString n) \<longrightarrow>
             (\<exists>l r. n = l @ js_trim n @ r
                \<and> (\<forall>c \<in> set l. isWhiteSpace c) \<and> (\<forall>c \<in> set r. isWhiteSpace c))
             \<and> (js_trim n \<noteq> [] \<longrightarrow>
                  \<not> isWhiteSpace (hd (js_trim n)) \<and> \<not> isWhiteSpace (last (js_trim n)))"
    using js_trim_decompose js_trim_ends by blast
  from 1 2 3 4 5 6 7 8 show ?thesis
    by (intro exI [of _ ?p] conjI)
qed

theorem finalizeUserCallLog_note_witness:
  "\<exists>p. finalizeUserCallLog True (js ''u1'') (js ''L1'')
          [''note'' \<mapsto> FString (js ''  ''), ''status'' \<mapsto> FString (js ''completed'')]
        = Inr (UpdateDoc (js ''u1'') (js ''L1'') p)
      \<and> p ''note'' = Some FDeleteField \<and> p ''endedAt'' = Some FServerTimestamp
      \<and> p ''status'' = Some (FString (js ''completed''))
      \<and> firestore_apply 7 p [''note'' \<mapsto> FString (js ''old'')] ''note'' = None"
proof -
  let ?u = "[''note'' \<mapsto> FString (js ''  ''), ''status'' \<mapsto> FString (js ''completed'')]"
  have t: "js_trim (js ''  '') = []"
    by (simp add: js_trim_def js_def isWhiteSpace_def)
  from finalizeUserCallLog_note [of "js ''u1''" "js ''L1''" ?u 7 "[''note'' \<mapsto> FString (js ''old'')]"]
  obtain p where a: "finalizeUserCallLog True (js ''u1'') (js ''L1'') ?u = Inr (UpdateDoc (js ''u1'') (js ''L1'') p)"
    and b: "p ''endedAt'' = Some FServerTimestamp"
    and c: "p ''note'' = (case ?u ''note'' of
              Some (FString n) \<Rightarrow> if js_trim n = [] then Some FDeleteField else Some (FString (js_trim n))
            | _ \<Rightarrow> Some FDeleteField)"
    and d: "\<forall>k. k \<noteq> ''note'' \<and> k \<noteq> ''endedAt'' \<longrightarrow> p k = ?u k"
    and e: "firestore_apply 7 p [''note'' \<mapsto> FString (js ''old'')] ''note'' =
           (case ?u ''note'' of
              Some (FString n) \<Rightarrow> if js_trim n = [] then None else Some (FString (js_trim n))
            | _ \<Rightarrow> None)"
    by (elim exE conjE)
  from c t have c': "p ''note'' = Some FDeleteField" by simp
  from d have d': "p ''status'' = Some (FString (js ''completed''))" by simp
  from e t have e': "firestore_apply 7 p [''note'' \<mapsto> FString (js ''old'')] ''note'' = None" by simp
  from a b c' d' e' show ?thesis by (intro exI [of _ p] conjI)
qed

section \<open>Finalising the call log\<close>

lemma durationSeconds_nonneg: "0 \<le> durationSeconds st t"
  by (simp add: durationSeconds_def split: option.split)

lemma durationSeconds_rounds:
  assumes "st \<noteq> 0" "st \<le> t"
  shows "durationSeconds (Some st) t = roundSeconds (t - st)"
    and "2 * \<bar>1000 * durationSeconds (Some st) t - (t - st)\<bar> \<le> 1000"
proof -
  from assms have r: "0 \<le> roundSeconds (t - st)"
    by (simp add: roundSeconds_def)
  with assms show d: "durationSeconds (Some st) t = roundSeconds (t - st)"
    by (simp add: durationSeconds_def)
  define q where "q = (t - st + 500) div 1000"
  define m where "m = (t - st + 500) mod 1000"
  have "1000 * q + m = t - st + 500" "0 \<le> m" "m < 1000"
    by (simp_all add: q_def m_def)
  then have "1000 * q - (t - st) = 500 - m" "\<bar>500 - m\<bar> \<le> 500"
    by (simp_all add: abs_le_iff)
  then have "2 * \<bar>1000 * q - (t - st)\<bar> \<le> 1000"
    by simp
  then show "2 * \<bar>1000 * durationSeconds (Some st) t - (t - st)\<bar> \<le> 1000"
    by (simp add: d roundSeconds_def q_def)
qed

lemma finalizeActiveLog_noop:
  "cu = None \<or> activeLogIdRef s = None \<or> activeLogIdRef s = Some [] \<Longrightarrow>
   finalizeActiveLog cu st x s = s"
  by (auto simp add: finalizeActiveLog_def truthy_def split: option.split)

lemma finalizeActiveLog_writes:
  assumes "activeLogIdRef s = Some l" "l \<noteq> []" "firebaseDb s"
  shows "finalizeActiveLog (Some u) st x s =
           s\<lparr> activeLogIdRef := None, activeCallStartedAtRef := None, callNoteRef := [],
              firestoreCalls := firestoreCalls s @
                [UpdateDoc (uid u) l
                   (finalizeUserCallLog_payload
                      (finalizeUpdates st (durationSeconds (activeCallStartedAtRef s) (now s))
                         (js_trim (callNoteRef s)) x))] \<rparr>"
  using assms
  by (simp add: finalizeActiveLog_def finalizeUserCallLog_def truthy_def Let_def)

lemma finalize_payload_fields:
  assumes "x ''durationSeconds'' = None" "x ''status'' = None"
  shows "finalizeUserCallLog_payload (finalizeUpdates st d n x) ''durationSeconds'' = Some (FNumber d)"
    and "finalizeUserCallLog_payload (finalizeUpdates st d n x) ''status'' = Some (FString (statusString st))"
    and "finalizeUserCallLog_payload (finalizeUpdates st d n x) ''endedAt'' = Some FServerTimestamp"
  using assms by (simp_all add: finalizeUserCallLog_payload_def finalizeUpdates_def map_add_def Let_def)

text \<open>
  C4 fails on the code, in two ways.

  The start time outlives a call without a log. \<open>finalizeActiveLog\<close> returns before it
  clears \<open>activeCallStartedAtRef\<close> when no log is pending, and \<open>makeCall\<close> does not reset it.
  The first call (its log could not be created) connected at time 1000 and was
  disconnected; the second call, with log \<open>L2\<close>, is dialled and cancelled three seconds
  later, at time 664000, without having connected. The update of \<open>L2\<close> carries
  \<open>durationSeconds\<close> 663, not 0.

  The pending log is not tied to a call. After a second \<open>makeCall\<close> during the first
  call (log \<open>L1\<close>, call object 0), the \<open>cancel\<close> of call object 0 puts the controller into
  \<open>failed\<close> and finalises \<open>L2\<close>, the log of the other call; the \<open>cancel\<close> of call object 1
  then finalises nothing. Both calls have reached a terminal state, \<open>L1\<close> was never
  finalised.
\<close>

theorem finalize_stale_start_and_wrong_log:
  "callState unloggedCallEnded = completed
   \<and> activeLogIdRef unloggedCallEnded = None
   \<and> finalized (firestoreCalls unloggedCallEnded) = []
   \<and> activeCallStartedAtRef unloggedCallEnded = Some 1000
   \<and> callState secondDial = connecting
   \<and> activeLogIdRef secondDial = Some (js ''L2'')
   \<and> activeCallStartedAtRef secondDial = Some 1000
   \<and> now (advance 3000 secondDial) = 664000
   \<and> callState (emit 1 Ev_cancel None (advance 3000 secondDial)) = failed
   \<and> (case last (firestoreCalls (emit 1 Ev_cancel None (advance 3000 secondDial))) of
         UpdateDoc userId logId p \<Rightarrow>
           logId = js ''L2'' \<and> p ''status'' = Some (FString (js ''cancelled''))
           \<and> p ''durationSeconds'' = Some (FNumber 663)
       | AddDoc userId p \<Rightarrow> False)
   \<and> activeLogIdRef (dialling plainConnection) = Some (js ''L1'')
   \<and> activeLogIdRef overlapped = Some (js ''L2'')
   \<and> activeConnectionRef overlapped = Some 1
   \<and> callState (emit 0 Ev_cancel None overlapped) = failed
   \<and> finalized (firestoreCalls (emit 0 Ev_cancel None overlapped)) = [js ''L2'']
   \<and> callState (emit 1 Ev_cancel None (emit 0 Ev_cancel None overlapped)) = failed
   \<and> finalized (firestoreCalls (emit 1 Ev_cancel None (emit 0 Ev_cancel None overlapped)))
        = [js ''L2'']"
  by (simp add: demo_defs ctrl_defs finalizeUserCallLog_payload_def Let_def)

section \<open>Sending tones\<close>




section \<open>Hold\<close>

lemma toggleHold_no_call: "activeConnectionRef s = None \<Longrightarrow> toggleHold r s = (Resolved False, s)"
  by (simp add: toggleHold_def)

lemma toggleHold_unsupported:
  "activeConnectionRef s = Some c \<Longrightarrow> \<not> conn_has_hold s c \<Longrightarrow>
   toggleHold r s = toggleHold_failed (js ''Hold is not supported for this call'') s"
  by (simp add: toggleHold_def Let_def)

lemma toggleHold_throws:
  "activeConnectionRef s = Some c \<Longrightarrow> conn_has_hold s c \<Longrightarrow>
   toggleHold (Some e) s =
     toggleHold_failed (thrownMessage e (js ''Failed to toggle hold''))
       (s\<lparr> sdkCalls := sdkCalls s @ [ConnHold c (\<not> currentHold s c)] \<rparr>)"
  by (simp add: toggleHold_def Let_def currentHold_def)

lemma toggleHold_ok:
  "activeConnectionRef s = Some c \<Longrightarrow> conn_has_hold s c \<Longrightarrow>
   toggleHold None s =
     (Resolved True,
      pushEvent (if \<not> currentHold s c then js ''Call placed on hold'' else js ''Call resumed'')
        ((sdk_setOnHold c (\<not> currentHold s c)
            (s\<lparr> sdkCalls := sdkCalls s @ [ConnHold c (\<not> currentHold s c)] \<rparr>))\<lparr> isOnHold := \<not> currentHold s c \<rparr>))"
  by (simp add: toggleHold_def Let_def currentHold_def)

lemma failed_keeps:
  "activeConnectionRef (snd (toggleHold_failed m s)) = activeConnectionRef s
   \<and> isOnHold (snd (toggleHold_failed m s)) = isOnHold s
   \<and> connections (snd (toggleHold_failed m s)) = connections s"
  by (simp add: toggleHold_failed_def pushEvent_def)

lemma failed_keeps_hold:
  "currentHold (snd (toggleHold_failed m s)) c = currentHold s c
   \<and> conn_has_hold (snd (toggleHold_failed m s)) c = conn_has_hold s c"
  by (simp add: currentHold_def conn_isOnHold_def conn_has_hold_def failed_keeps)

lemma ok_flips:
  assumes "conn_has_hold s c"
  shows "currentHold (pushEvent m ((sdk_setOnHold c b (s\<lparr> sdkCalls := x \<rparr>))\<lparr> isOnHold := b \<rparr>)) c = b
    \<and> conn_has_hold (pushEvent m ((sdk_setOnHold c b (s\<lparr> sdkCalls := x \<rparr>))\<lparr> isOnHold := b \<rparr>)) c
    \<and> activeConnectionRef (pushEvent m ((sdk_setOnHold c b (s\<lparr> sdkCalls := x \<rparr>))\<lparr> isOnHold := b \<rparr>)) = activeConnectionRef s
    \<and> isOnHold (pushEvent m ((sdk_setOnHold c b (s\<lparr> sdkCalls := x \<rparr>))\<lparr> isOnHold := b \<rparr>)) = b"
  using assms
  by (auto simp add: currentHold_def conn_isOnHold_def conn_has_hold_def pushEvent_def
        sdk_setOnHold_def orElse_def split: option.splits)

text \<open>
  While a call object is tracked, two \<open>toggleHold\<close> calls in succession that meet the same
  outcome of the SDK (both succeed, or both fail) leave the call object in place and
  return the hold state to its original value: the hold state that \<open>toggleHold\<close> consults
  (\<open>connection.isOnHold?.() ?? isOnHold\<close>) always, and the \<open>isOnHold\<close> flag whenever it
  agreed with that state before. A successful single toggle does negate both. When no call
  object is tracked \<open>toggleHold\<close> resolves to false and changes nothing.
\<close>

lemma toggleHold_pair:
  "(activeConnectionRef s = Some c \<longrightarrow>
      activeConnectionRef (snd (toggleHold r (snd (toggleHold r s)))) = Some c
      \<and> currentHold (snd (toggleHold r (snd (toggleHold r s)))) c = currentHold s c
      \<and> (isOnHold s = currentHold s c \<longrightarrow>
           isOnHold (snd (toggleHold r (snd (toggleHold r s)))) = isOnHold s)
      \<and> (conn_has_hold s c \<and> r = None \<longrightarrow>
           fst (toggleHold r s) = Resolved True
           \<and> isOnHold (snd (toggleHold r s)) = (\<not> currentHold s c)
           \<and> currentHold (snd (toggleHold r s)) c = (\<not> currentHold s c)))
   \<and> (activeConnectionRef s = None \<longrightarrow> toggleHold r s = (Resolved False, s))"
proof (intro conjI impI)
  assume a: "activeConnectionRef s = Some c"
  show "activeConnectionRef (snd (toggleHold r (snd (toggleHold r s)))) = Some c"
  proof (cases "conn_has_hold s c")
    case False
    with a show ?thesis
      by (simp add: toggleHold_unsupported failed_keeps failed_keeps_hold)
  next
    case True
    show ?thesis
    proof (cases r)
      case None
      with a True show ?thesis
        by (simp add: toggleHold_ok ok_flips)
    next
      case (Some e)
      with a True show ?thesis
        by (simp add: toggleHold_throws failed_keeps failed_keeps_hold conn_has_hold_def)
    qed
  qed
next
  assume a: "activeConnectionRef s = Some c"
  show "currentHold (snd (toggleHold r (snd (toggleHold r s)))) c = currentHold s c"
  proof (cases "conn_has_hold s c")
    case False
    with a show ?thesis
      by (simp add: toggleHold_unsupported failed_keeps failed_keeps_hold)
  next
    case True
    show ?thesis
    proof (cases r)
      case None
      with a True show ?thesis
        by (simp add: toggleHold_ok ok_flips)
    next
      case (Some e)
      with a True show ?thesis
        by (simp add: toggleHold_throws failed_keeps failed_keeps_hold conn_has_hold_def
              currentHold_def conn_isOnHold_def)
    qed
  qed
next
  assume a: "activeConnectionRef s = Some c" and sync: "isOnHold s = currentHold s c"
  show "isOnHold (snd (toggleHold r (snd (toggleHold r s)))) = isOnHold s"
  proof (cases "conn_has_hold s c")
    case False
    with a show ?thesis
      by (simp add: toggleHold_unsupported failed_keeps failed_keeps_hold)
  next
    case True
    show ?thesis
    proof (cases r)
      case None
      with a True sync show ?thesis
        by (simp add: toggleHold_ok ok_flips)
    next
      case (Some e)
      with a True show ?thesis
        by (simp add: toggleHold_throws failed_keeps failed_keeps_hold conn_has_hold_def)
    qed
  qed
next
  assume a: "activeConnectionRef s = Some c" and b: "conn_has_hold s c \<and> r = None"
  then show "fst (toggleHold r s) = Resolved True"
    by (simp add: toggleHold_ok)
  from a b show "isOnHold (snd (toggleHold r s)) = (\<not> currentHold s c)"
    by (simp add: toggleHold_ok ok_flips)
  from a b show "currentHold (snd (toggleHold r s)) c = (\<not> currentHold s c)"
    by (simp add: toggleHold_ok ok_flips)
next
  assume "activeConnectionRef s = None"
  then show "toggleHold r s = (Resolved False, s)" by (rule toggleHold_no_call)
qed

text \<open>
  C9 fails on the code in its second half. \<open>toggleHold\<close> decides on \<open>activeConnectionRef\<close>,
  which the \<open>disconnect\<close> listener empties but \<open>hangUp\<close> and the \<open>cancel\<close>, \<open>reject\<close> and
  \<open>error\<close> listeners of \<open>makeCall\<close> do not. After the connected call was hung up the call
  state is \<open>idle\<close> and no call is active, yet \<open>toggleHold\<close> resolves to true, asks the ended
  call object to hold and sets \<open>isOnHold\<close>; after a dialled call was cancelled (state
  \<open>failed\<close>) it does the same. On a call object without hold support it resolves to false,
  but records an error and an event.
\<close>

theorem toggleHold_after_call_ended:
  "callState (hungUp holdConnection) = idle
   \<and> activeConnectionRef (hungUp holdConnection) = Some 0
   \<and> isOnHold (hungUp holdConnection) = False
   \<and> fst (toggleHold None (hungUp holdConnection)) = Resolved True
   \<and> sdkCalls (snd (toggleHold None (hungUp holdConnection)))
       = sdkCalls (hungUp holdConnection) @ [ConnHold 0 True]
   \<and> isOnHold (snd (toggleHold None (hungUp holdConnection))) = True
   \<and> callState (snd (toggleHold None (hungUp holdConnection))) = idle
   \<and> callState (cancelledCall holdConnection) = failed
   \<and> activeConnectionRef (cancelledCall holdConnection) = Some 0
   \<and> isOnHold (cancelledCall holdConnection) = False
   \<and> fst (toggleHold None (cancelledCall holdConnection)) = Resolved True
   \<and> isOnHold (snd (toggleHold None (cancelledCall holdConnection))) = True
   \<and> lastError (hungUp plainConnection) = None
   \<and> fst (toggleHold None (hungUp plainConnection)) = Resolved False
   \<and> lastError (snd (toggleHold None (hungUp plainConnection)))
       = Some (js ''Hold is not supported for this call'')
   \<and> length (events (snd (toggleHold None (hungUp plainConnection))))
       = Suc (length (events (hungUp plainConnection)))"
  by (simp add: toggleHold_def toggleHold_failed_def currentHold_def sdk_setOnHold_def
        demo_defs ctrl_defs finalizeUserCallLog_payload_def Let_def)

section \<open>Initialising the device\<close>

lemma constructed_append: "constructed (xs @ ys) = constructed xs @ constructed ys"
  by (induction xs rule: constructed.induct) simp_all

lemma registrations_append: "registrations (xs @ ys) = registrations xs @ registrations ys"
  by (induction xs rule: registrations.induct) simp_all

lemma clearDevice_fields:
  "user (clearDevice s) = user s"
  "deviceRef (clearDevice s) = None"
  "nextDevice (clearDevice s) = nextDevice s"
  "constructed (sdkCalls (clearDevice s)) = constructed (sdkCalls s)"
  "registrations (sdkCalls (clearDevice s)) = registrations (sdkCalls s)"
  by (simp_all add: clearDevice_def clearTimeout_def Let_def constructed_append
        registrations_append split: option.split)

lemma request_fields:
  "fst (initializeClient_request u s) = AwaitingToken (userIdentity u)"
  "user (snd (initializeClient_request u s)) = user s"
  "deviceRef (snd (initializeClient_request u s)) = deviceRef s"
  "nextDevice (snd (initializeClient_request u s)) = nextDevice s"
  "sdkCalls (snd (initializeClient_request u s)) = sdkCalls s"
  by (simp_all add: initializeClient_request_def pushEvent_def Let_def)

lemma begin_not_ready:
  assumes "user s = Some u" "deviceRef s = None \<or> \<not> isClientReady s"
  shows "fst (initializeClient_begin s) = AwaitingToken (userIdentity u)"
    and "user (snd (initializeClient_begin s)) = Some u"
    and "deviceRef (snd (initializeClient_begin s)) = None"
    and "nextDevice (snd (initializeClient_begin s)) = nextDevice s"
    and "constructed (sdkCalls (snd (initializeClient_begin s))) = constructed (sdkCalls s)"
    and "registrations (sdkCalls (snd (initializeClient_begin s))) = registrations (sdkCalls s)"
  using assms
  by (auto simp add: initializeClient_begin_def request_fields clearDevice_fields split: option.split)

lemma begin_ready:
  assumes "user s = Some u" "deviceRef s = Some d" "isClientReady s"
  shows "initializeClient_begin s = (Settled (Resolved d), s)"
  using assms by (simp add: initializeClient_begin_def)

lemma issue_not_ready:
  assumes "user s = Some u" "deviceRef s = None \<or> \<not> isClientReady s"
  shows "fst (issue n s) = replicate n (AwaitingToken (userIdentity u))
    \<and> user (snd (issue n s)) = Some u
    \<and> nextDevice (snd (issue n s)) = nextDevice s
    \<and> constructed (sdkCalls (snd (issue n s))) = constructed (sdkCalls s)
    \<and> registrations (sdkCalls (snd (issue n s))) = registrations (sdkCalls s)"
  using assms
proof (induction n arbitrary: s)
  case 0
  then show ?case by simp
next
  case (Suc n)
  note b = begin_not_ready [OF Suc.prems]
  from b(2) b(3) have "fst (issue n (snd (initializeClient_begin s))) = replicate n (AwaitingToken (userIdentity u))
    \<and> user (snd (issue n (snd (initializeClient_begin s)))) = Some u
    \<and> nextDevice (snd (issue n (snd (initializeClient_begin s)))) = nextDevice (snd (initializeClient_begin s))
    \<and> constructed (sdkCalls (snd (issue n (snd (initializeClient_begin s))))) = constructed (sdkCalls (snd (initializeClient_begin s)))
    \<and> registrations (sdkCalls (snd (issue n (snd (initializeClient_begin s))))) = registrations (sdkCalls (snd (initializeClient_begin s)))"
    by (intro Suc.IH) simp_all
  with b show ?case
    by (simp add: split_beta)
qed

lemma issue_ready:
  assumes "user s = Some u" "deviceRef s = Some d" "isClientReady s"
  shows "issue n s = (replicate n (Settled (Resolved d)), s)"
  using assms by (induction n) (simp_all add: begin_ready)

lemma scheduleTokenRefresh_fields:
  "sdkCalls (scheduleTokenRefresh e i s) = sdkCalls s"
  "nextDevice (scheduleTokenRefresh e i s) = nextDevice s"
  "deviceRef (scheduleTokenRefresh e i s) = deviceRef s"
  by (simp_all add: scheduleTokenRefresh_def clearTimeout_def Let_def split: option.split)

lemma resume_fields:
  "fst (initializeClient_resume ident cap resp s) = nextDevice s"
  "nextDevice (snd (initializeClient_resume ident cap resp s)) = Suc (nextDevice s)"
  "deviceRef (snd (initializeClient_resume ident cap resp s)) = Some (nextDevice s)"
  "constructed (sdkCalls (snd (initializeClient_resume ident cap resp s)))
     = constructed (sdkCalls s) @ [nextDevice s]"
  "registrations (sdkCalls (snd (initializeClient_resume ident cap resp s)))
     = registrations (sdkCalls s) @ [nextDevice s]"
  by (simp_all add: initializeClient_resume_def Let_def scheduleTokenRefresh_fields
        constructed_append registrations_append)

lemma upt_from: "[a ..< a + Suc n] = a # [Suc a ..< Suc a + n]"
  by (simp add: upt_rec del: upt_Suc)

lemma deliver_fields:
  "fst (deliver ps s) = [nextDevice s ..< nextDevice s + length ps]
   \<and> constructed (sdkCalls (snd (deliver ps s)))
       = constructed (sdkCalls s) @ [nextDevice s ..< nextDevice s + length ps]
   \<and> registrations (sdkCalls (snd (deliver ps s)))
       = registrations (sdkCalls s) @ [nextDevice s ..< nextDevice s + length ps]"
proof (induction ps arbitrary: s)
  case Nil
  then show ?case by simp
next
  case (Cons p ps)
  obtain ident cap resp where p: "p = (ident, cap, resp)" by (cases p)
  let ?s1 = "snd (initializeClient_resume ident cap resp s)"
  have u: "[nextDevice s ..< nextDevice s + length (p # ps)]
             = nextDevice s # [Suc (nextDevice s) ..< Suc (nextDevice s) + length ps]"
    using upt_from [of "nextDevice s" "length ps"] by simp
  from Cons.IH [of ?s1]
  have ih: "fst (deliver ps ?s1) = [Suc (nextDevice s) ..< Suc (nextDevice s) + length ps]"
    "constructed (sdkCalls (snd (deliver ps ?s1)))
       = (constructed (sdkCalls s) @ [nextDevice s]) @ [Suc (nextDevice s) ..< Suc (nextDevice s) + length ps]"
    "registrations (sdkCalls (snd (deliver ps ?s1)))
       = (registrations (sdkCalls s) @ [nextDevice s]) @ [Suc (nextDevice s) ..< Suc (nextDevice s) + length ps]"
    by (simp_all only: resume_fields)
  have d: "deliver (p # ps) s = (nextDevice s # fst (deliver ps ?s1), snd (deliver ps ?s1))"
    by (simp add: p split_beta resume_fields)
  show ?case
    unfolding u d fst_conv snd_conv ih by simp
qed

text \<open>
  C1 as stated fails: \<open>initializeClient\<close> keeps no handle of an initialisation in flight.
  Two calls issued back to back by the signed-in agent both find \<open>deviceRef\<close> empty and both
  ask for a token; when the tokens arrive each call constructs its own device and calls
  \<open>register()\<close> on it. Two devices (0 and 1) are constructed, two registrations are made,
  and the two callers receive different devices.
\<close>

theorem initializeClient_twice_counterexample:
  "fst (issue 2 signedIn) = [AwaitingToken (js ''agent@example.com''), AwaitingToken (js ''agent@example.com'')]
   \<and> fst (deliver [(js ''agent@example.com'', (None, Some demoUser), demoToken), (js ''agent@example.com'', (None, Some demoUser), demoToken)]
             (snd (issue 2 signedIn))) = [0, 1]
   \<and> constructed (sdkCalls (snd (deliver [(js ''agent@example.com'', (None, Some demoUser), demoToken),
                                           (js ''agent@example.com'', (None, Some demoUser), demoToken)]
                                    (snd (issue 2 signedIn))))) = [0, 1]
   \<and> registrations (sdkCalls (snd (deliver [(js ''agent@example.com'', (None, Some demoUser), demoToken),
                                           (js ''agent@example.com'', (None, Some demoUser), demoToken)]
                                    (snd (issue 2 signedIn))))) = [0, 1]"
proof -
  have u: "[0 ..< 2] = [0, 1::nat]" by (simp add: upt_rec)
  have r: "replicate 2 x = [x, x]" for x :: init_step by (simp add: numeral_2_eq_2)
  have i: "userIdentity demoUser = js ''agent@example.com''"
    by (simp add: userIdentity_def demoUser_def sanitizeIdentity_def js_trim_def isWhiteSpace_def
          isIdentityChar_def isDigit_def orElse_def js_def)
  have nr: "deviceRef signedIn = None \<or> \<not> isClientReady signedIn"
    by (simp add: signedIn_fields)
  from issue_not_ready [OF signedIn_fields(1) nr, of 2]
       deliver_fields [of "[(js ''agent@example.com'', (None, Some demoUser), demoToken),
                            (js ''agent@example.com'', (None, Some demoUser), demoToken)]" "snd (issue 2 signedIn)"]
       signedIn_fields u r i
  show ?thesis by (simp del: deliver.simps)
qed

text \<open>
  C1, amended. With a user signed in: \<open>n\<close> calls of \<open>initializeClient\<close> issued back to back
  while no device is ready are all suspended at the token request, and when their tokens
  have arrived \<open>n\<close> further devices have been constructed, \<open>register()\<close> has been called
  once on each of them, and every caller receives its own device, different from all the
  others. Only when a device exists and is ready do the calls construct and register
  nothing: each returns the existing device and leaves the state as it is.
\<close>

theorem initializeClient_concurrent:
  assumes "user s = Some u"
  shows "(deviceRef s = None \<or> \<not> isClientReady s \<longrightarrow>
            fst (issue n s) = replicate n (AwaitingToken (userIdentity u))
            \<and> (\<forall>ps. length ps = n \<longrightarrow>
                  fst (deliver ps (snd (issue n s))) = [nextDevice s ..< nextDevice s + n]
                  \<and> distinct (fst (deliver ps (snd (issue n s))))
                  \<and> constructed (sdkCalls (snd (deliver ps (snd (issue n s)))))
                      = constructed (sdkCalls s) @ [nextDevice s ..< nextDevice s + n]
                  \<and> registrations (sdkCalls (snd (deliver ps (snd (issue n s)))))
                      = registrations (sdkCalls s) @ [nextDevice s ..< nextDevice s + n]))
    \<and> (\<forall>d. deviceRef s = Some d \<and> isClientReady s \<longrightarrow>
            issue n s = (replicate n (Settled (Resolved d)), s))"
proof (intro conjI impI allI)
  assume nr: "deviceRef s = None \<or> \<not> isClientReady s"
  note i = issue_not_ready [OF assms nr, of n]
  from i show "fst (issue n s) = replicate n (AwaitingToken (userIdentity u))" by simp
  fix ps :: "(jsstring \<times> (jsstring option \<times> AuthUser option) \<times> TokenResponse) list"
  assume l: "length ps = n"
  note d = deliver_fields [of ps "snd (issue n s)"]
  from d i l show r: "fst (deliver ps (snd (issue n s))) = [nextDevice s ..< nextDevice s + n]"
    by simp
  then show "distinct (fst (deliver ps (snd (issue n s))))" by simp
  from d i l show "constructed (sdkCalls (snd (deliver ps (snd (issue n s)))))
                      = constructed (sdkCalls s) @ [nextDevice s ..< nextDevice s + n]"
    by simp
  from d i l show "registrations (sdkCalls (snd (deliver ps (snd (issue n s)))))
                      = registrations (sdkCalls s) @ [nextDevice s ..< nextDevice s + n]"
    by simp
next
  fix d
  assume "deviceRef s = Some d \<and> isClientReady s"
  with assms show "issue n s = (replicate n (Settled (Resolved d)), s)"
    by (simp add: issue_ready)
qed

theorem initializeClient_concurrent_witness:
  "user signedIn = Some demoUser \<and> deviceRef signedIn = None
   \<and> length [(js ''agent@example.com'', (None, Some demoUser), demoToken), (js ''agent@example.com'', (None, Some demoUser), demoToken)] = 2
   \<and> fst (deliver [(js ''agent@example.com'', (None, Some demoUser), demoToken), (js ''agent@example.com'', (None, Some demoUser), demoToken)]
             (snd (issue 2 signedIn))) = [0, 1]
   \<and> user readyState = Some demoUser \<and> deviceRef readyState = Some 0 \<and> isClientReady readyState
   \<and> issue 2 readyState = ([Settled (Resolved 0), Settled (Resolved 0)], readyState)"
proof -
  have u: "[0 ..< 2] = [0, 1::nat]" by (simp add: upt_rec)
  have r: "replicate 2 x = [x, x]" for x :: init_step by (simp add: numeral_2_eq_2)
  from initializeClient_concurrent [OF signedIn_fields(1), of 2]
       initializeClient_concurrent [OF ready_fields(1), of 2]
       signedIn_fields ready_fields u r
  show ?thesis by (simp del: deliver.simps)
qed

section \<open>Placing a call\<close>

lemma clearDevice_keeps:
  "callState (clearDevice s) = callState s"
  "isMuted (clearDevice s) = isMuted s"
  "isOnHold (clearDevice s) = isOnHold s"
  "activeLogIdRef (clearDevice s) = activeLogIdRef s"
  "firestoreCalls (clearDevice s) = firestoreCalls s"
  "nextConnection (clearDevice s) = nextConnection s"
  by (simp_all add: clearDevice_def clearTimeout_def Let_def split: option.split)

lemma request_keeps:
  "callState (snd (initializeClient_request u s)) = callState s"
  "isMuted (snd (initializeClient_request u s)) = isMuted s"
  "isOnHold (snd (initializeClient_request u s)) = isOnHold s"
  "activeLogIdRef (snd (initializeClient_request u s)) = activeLogIdRef s"
  "firestoreCalls (snd (initializeClient_request u s)) = firestoreCalls s"
  "nextConnection (snd (initializeClient_request u s)) = nextConnection s"
  "activeConnectionRef (snd (initializeClient_request u s)) = activeConnectionRef s"
  by (simp_all add: initializeClient_request_def pushEvent_def Let_def)

lemma begin_keeps:
  "callState (snd (initializeClient_begin s)) = callState s"
  "isMuted (snd (initializeClient_begin s)) = isMuted s"
  "isOnHold (snd (initializeClient_begin s)) = isOnHold s"
  "activeLogIdRef (snd (initializeClient_begin s)) = activeLogIdRef s"
  "firestoreCalls (snd (initializeClient_begin s)) = firestoreCalls s"
  "nextConnection (snd (initializeClient_begin s)) = nextConnection s"
  "deviceRef s = None \<Longrightarrow> activeConnectionRef (snd (initializeClient_begin s)) = activeConnectionRef s"
  by (simp_all add: initializeClient_begin_def request_keeps clearDevice_keeps split: option.split)

lemma resume_keeps:
  "callState (snd (initializeClient_resume i c r s)) = callState s"
  "isMuted (snd (initializeClient_resume i c r s)) = isMuted s"
  "isOnHold (snd (initializeClient_resume i c r s)) = isOnHold s"
  "activeLogIdRef (snd (initializeClient_resume i c r s)) = activeLogIdRef s"
  "firestoreCalls (snd (initializeClient_resume i c r s)) = firestoreCalls s"
  "nextConnection (snd (initializeClient_resume i c r s)) = nextConnection s"
  "activeConnectionRef (snd (initializeClient_resume i c r s)) = activeConnectionRef s"
  "user (snd (initializeClient_resume i c r s)) = user s"
  "isClientReady (snd (initializeClient_resume i c r s)) = isClientReady s"
  by (simp_all add: initializeClient_resume_def scheduleTokenRefresh_def clearTimeout_def Let_def
        split: option.split)

lemma initializeClient_split:
  "initializeClient f r s =
     (case initializeClient_begin s of
        (Settled p, s1) \<Rightarrow> (p, s1)
      | (AwaitingToken ident, s1) \<Rightarrow>
          (case f of
             Inl e \<Rightarrow> (Rejected e, s1)
           | Inr resp \<Rightarrow>
               (case r of
                  None \<Rightarrow>
                    (Resolved (fst (initializeClient_resume ident (activeNumber s, user s) resp s1)),
                     snd (initializeClient_resume ident (activeNumber s, user s) resp s1))
                | Some e \<Rightarrow>
                    (Rejected e, snd (initializeClient_resume ident (activeNumber s, user s) resp s1)))))"
  by (simp add: initializeClient_def split_beta split: init_step.split sum.split option.split prod.split)

lemma initializeClient_keeps:
  "callState (snd (initializeClient f r s)) = callState s"
  "isMuted (snd (initializeClient f r s)) = isMuted s"
  "isOnHold (snd (initializeClient f r s)) = isOnHold s"
  "activeLogIdRef (snd (initializeClient f r s)) = activeLogIdRef s"
  "firestoreCalls (snd (initializeClient f r s)) = firestoreCalls s"
  "nextConnection (snd (initializeClient f r s)) = nextConnection s"
  "deviceRef s = None \<Longrightarrow> activeConnectionRef (snd (initializeClient f r s)) = activeConnectionRef s"
  using begin_keeps [of s]
  by (auto simp add: initializeClient_split resume_keeps
        split: init_step.split sum.split option.split prod.split)

lemma initializeClient_outcome:
  assumes "user s = Some u"
  shows "deviceRef s = None \<or> \<not> isClientReady s \<Longrightarrow>
           fst (initializeClient f r s) =
             (case f of
                Inl e \<Rightarrow> Rejected e
              | Inr resp \<Rightarrow> (case r of None \<Rightarrow> Resolved (nextDevice s) | Some e \<Rightarrow> Rejected e))"
    and "deviceRef s = Some d \<Longrightarrow> isClientReady s \<Longrightarrow> initializeClient f r s = (Resolved d, s)"
proof -
  assume nr: "deviceRef s = None \<or> \<not> isClientReady s"
  note b = begin_not_ready [OF assms nr]
  obtain st s1 where e: "initializeClient_begin s = (st, s1)" by (cases "initializeClient_begin s")
  with b have "st = AwaitingToken (userIdentity u)" "nextDevice s1 = nextDevice s" by simp_all
  with e show "fst (initializeClient f r s) =
             (case f of
                Inl e \<Rightarrow> Rejected e
              | Inr resp \<Rightarrow> (case r of None \<Rightarrow> Resolved (nextDevice s) | Some e \<Rightarrow> Rejected e))"
    by (simp add: initializeClient_split resume_fields split: sum.split option.split)
next
  assume "deviceRef s = Some d" "isClientReady s"
  with assms show "initializeClient f r s = (Resolved d, s)"
    by (simp add: initializeClient_split begin_ready)
qed

lemma dial_fields:
  assumes "connectOutcome env = Inr k"
  shows "fst (makeCall_dial env u dv t s) = Resolved True"
    and "callState (snd (makeCall_dial env u dv t s)) = connecting"
    and "isMuted (snd (makeCall_dial env u dv t s)) = False"
    and "isOnHold (snd (makeCall_dial env u dv t s)) = False"
    and "activeConnectionRef (snd (makeCall_dial env u dv t s)) = Some (nextConnection s)"
  using assms
  by (simp_all add: makeCall_dial_def createLog_def createUserCallLog_def pushEvent_def
        attachOnce_def Let_def split: sum.split)

lemma dial_throws:
  assumes "connectOutcome env = Inl e"
  shows "fst (makeCall_dial env u dv t s) = Rejected e"
    and "callState (snd (makeCall_dial env u dv t s)) = connecting"
  using assms
  by (simp_all add: makeCall_dial_def createLog_def createUserCallLog_def pushEvent_def
        Let_def split: sum.split)

text \<open>
  C2 as stated fails: there is no \<open>NotReadyError\<close>. For the signed-in agent without any
  device, \<open>makeCall\<close> initialises the device itself and goes on to dial: it resolves to true
  and the call state is \<open>connecting\<close>, although the device has not signalled \<open>ready\<close>.
\<close>

theorem makeCall_not_ready_counterexample:
  "\<not> isClientReady signedIn \<and> deviceRef signedIn = None \<and> callState signedIn = idle
   \<and> fst (makeCall (demoEnv (js ''L1'') plainConnection) (js ''+12025550123'') signedIn) = Resolved True
   \<and> callState (snd (makeCall (demoEnv (js ''L1'') plainConnection) (js ''+12025550123'') signedIn))
       = connecting
   \<and> \<not> isClientReady (snd (makeCall (demoEnv (js ''L1'') plainConnection) (js ''+12025550123'') signedIn))"
  by (simp add: demo_defs ctrl_defs Let_def)

text \<open>
  C2, amended. \<open>makeCall\<close> rejects when no user is signed in, leaving the state as it is,
  and resolves to false for a blank destination, setting only \<open>lastError\<close>. Otherwise it
  awaits \<open>initializeClient\<close>, which returns the device at once when it is ready and else
  requests a token and registers a new device. When that initialisation is rejected (the
  token request or the registration failed), \<open>makeCall\<close> is rejected with the same error and
  \<open>callState\<close>, \<open>isMuted\<close>, \<open>isOnHold\<close>, the pending log and the requests to Firestore are
  unchanged, as is the tracked call object when there was no stale device to clear. When
  the initialisation resolves and the SDK returns a call object, \<open>makeCall\<close> resolves to
  true, the call state is \<open>connecting\<close> whatever it was before, both flags are off and the
  new call object is tracked. When the initialisation resolves and \<open>device.connect\<close> throws,
  \<open>makeCall\<close> is rejected with what was thrown and the call state is \<open>connecting\<close>
  already: this rejection does not leave the state unchanged.
\<close>

theorem makeCall_initialises:
  "(user s = None \<longrightarrow>
      makeCall env dest s = (Rejected (ErrorObj (js ''You must be signed in to place calls'')), s))
   \<and> (user s \<noteq> None \<and> js_trim dest = [] \<longrightarrow>
        makeCall env dest s = (Resolved False, s\<lparr> lastError := Some (js ''Enter a number to call'') \<rparr>))
   \<and> (\<forall>e. user s \<noteq> None \<and> js_trim dest \<noteq> []
          \<and> fst (initializeClient (tokenFetch env) (registerOutcome env) s) = Rejected e \<longrightarrow>
        fst (makeCall env dest s) = Rejected e
        \<and> callState (snd (makeCall env dest s)) = callState s
        \<and> isMuted (snd (makeCall env dest s)) = isMuted s
        \<and> isOnHold (snd (makeCall env dest s)) = isOnHold s
        \<and> activeLogIdRef (snd (makeCall env dest s)) = activeLogIdRef s
        \<and> firestoreCalls (snd (makeCall env dest s)) = firestoreCalls s
        \<and> (deviceRef s = None \<longrightarrow>
             activeConnectionRef (snd (makeCall env dest s)) = activeConnectionRef s))
   \<and> (\<forall>dv k. user s \<noteq> None \<and> js_trim dest \<noteq> []
          \<and> fst (initializeClient (tokenFetch env) (registerOutcome env) s) = Resolved dv
          \<and> connectOutcome env = Inr k \<longrightarrow>
        fst (makeCall env dest s) = Resolved True
        \<and> callState (snd (makeCall env dest s)) = connecting
        \<and> \<not> isMuted (snd (makeCall env dest s))
        \<and> \<not> isOnHold (snd (makeCall env dest s))
        \<and> activeConnectionRef (snd (makeCall env dest s)) = Some (nextConnection s))
   \<and> (user s \<noteq> None \<and> (deviceRef s = None \<or> \<not> isClientReady s) \<longrightarrow>
        fst (initializeClient (tokenFetch env) (registerOutcome env) s) =
          (case tokenFetch env of
             Inl e \<Rightarrow> Rejected e
           | Inr resp \<Rightarrow>
               (case registerOutcome env of None \<Rightarrow> Resolved (nextDevice s) | Some e \<Rightarrow> Rejected e)))
   \<and> (\<forall>d. user s \<noteq> None \<and> deviceRef s = Some d \<and> isClientReady s \<longrightarrow>
        initializeClient (tokenFetch env) (registerOutcome env) s = (Resolved d, s))
   \<and> (\<forall>dv e. user s \<noteq> None \<and> js_trim dest \<noteq> []
          \<and> fst (initializeClient (tokenFetch env) (registerOutcome env) s) = Resolved dv
          \<and> connectOutcome env = Inl e \<longrightarrow>
        fst (makeCall env dest s) = Rejected e
        \<and> callState (snd (makeCall env dest s)) = connecting)"
proof (intro conjI impI allI; (elim conjE)?)
  assume "user s = None"
  then show "makeCall env dest s = (Rejected (ErrorObj (js ''You must be signed in to place calls'')), s)"
    by (simp add: makeCall_def)
next
  assume "user s \<noteq> None" "js_trim dest = []"
  then show "makeCall env dest s = (Resolved False, s\<lparr> lastError := Some (js ''Enter a number to call'') \<rparr>)"
    by (auto simp add: makeCall_def)
next
  fix e
  assume u: "user s \<noteq> None" and t: "js_trim dest \<noteq> []"
    and r: "fst (initializeClient (tokenFetch env) (registerOutcome env) s) = Rejected e"
  from u t r have m: "makeCall env dest s
      = (Rejected e, snd (initializeClient (tokenFetch env) (registerOutcome env) s))"
    by (auto simp add: makeCall_def split: prod.split promise.split)
  from m show "fst (makeCall env dest s) = Rejected e" by simp
  from m show "callState (snd (makeCall env dest s)) = callState s"
    by (simp add: initializeClient_keeps)
  from m show "isMuted (snd (makeCall env dest s)) = isMuted s"
    by (simp add: initializeClient_keeps)
  from m show "isOnHold (snd (makeCall env dest s)) = isOnHold s"
    by (simp add: initializeClient_keeps)
  from m show "activeLogIdRef (snd (makeCall env dest s)) = activeLogIdRef s"
    by (simp add: initializeClient_keeps)
  from m show "firestoreCalls (snd (makeCall env dest s)) = firestoreCalls s"
    by (simp add: initializeClient_keeps)
  from m show "activeConnectionRef (snd (makeCall env dest s)) = activeConnectionRef s"
    if "deviceRef s = None"
    using that by (simp add: initializeClient_keeps)
next
  fix dv k
  assume u: "user s \<noteq> None" and t: "js_trim dest \<noteq> []"
    and r: "fst (initializeClient (tokenFetch env) (registerOutcome env) s) = Resolved dv"
    and c: "connectOutcome env = Inr k"
  from u obtain usr where usr: "user s = Some usr" by auto
  from usr t r have m: "makeCall env dest s
      = makeCall_dial env usr dv (js_trim dest)
          (snd (initializeClient (tokenFetch env) (registerOutcome env) s))"
    by (auto simp add: makeCall_def Let_def split: prod.split promise.split)
  note d = dial_fields [OF c, of usr dv "js_trim dest"
      "snd (initializeClient (tokenFetch env) (registerOutcome env) s)"]
  from m d show "fst (makeCall env dest s) = Resolved True" by simp
  from m d show "callState (snd (makeCall env dest s)) = connecting" by simp
  from m d show "\<not> isMuted (snd (makeCall env dest s))" by simp
  from m d show "\<not> isOnHold (snd (makeCall env dest s))" by simp
  from m d show "activeConnectionRef (snd (makeCall env dest s)) = Some (nextConnection s)"
    by (simp add: initializeClient_keeps)
next
  assume "user s \<noteq> None" "deviceRef s = None \<or> \<not> isClientReady s"
  then show "fst (initializeClient (tokenFetch env) (registerOutcome env) s) =
          (case tokenFetch env of
             Inl e \<Rightarrow> Rejected e
           | Inr resp \<Rightarrow>
               (case registerOutcome env of None \<Rightarrow> Resolved (nextDevice s) | Some e \<Rightarrow> Rejected e))"
    using initializeClient_outcome(1) by auto
next
  fix d
  assume "user s \<noteq> None" "deviceRef s = Some d" "isClientReady s"
  then show "initializeClient (tokenFetch env) (registerOutcome env) s = (Resolved d, s)"
    using initializeClient_outcome(2) by auto
next
  fix dv e
  assume u: "user s \<noteq> None" and t: "js_trim dest \<noteq> []"
    and r: "fst (initializeClient (tokenFetch env) (registerOutcome env) s) = Resolved dv"
    and c: "connectOutcome env = Inl e"
  from u obtain usr where usr: "user s = Some usr" by auto
  from usr t r have m: "makeCall env dest s
      = makeCall_dial env usr dv (js_trim dest)
          (snd (initializeClient (tokenFetch env) (registerOutcome env) s))"
    by (auto simp add: makeCall_def Let_def split: prod.split promise.split)
  note d = dial_throws [OF c, of usr dv "js_trim dest"
      "snd (initializeClient (tokenFetch env) (registerOutcome env) s)"]
  from m d show "fst (makeCall env dest s) = Rejected e" by simp
  from m d show "callState (snd (makeCall env dest s)) = connecting" by simp
qed

theorem makeCall_initialises_witness:
  "user signedIn \<noteq> None \<and> js_trim (js ''+12025550123'') \<noteq> []
   \<and> deviceRef signedIn = None \<and> \<not> isClientReady signedIn
   \<and> fst (makeCall failingEnv (js ''+12025550123'') signedIn) = Rejected (ErrorObj (js ''token endpoint down''))
   \<and> callState (snd (makeCall failingEnv (js ''+12025550123'') signedIn)) = idle
   \<and> fst (makeCall (demoEnv (js ''L1'') plainConnection) (js ''+12025550123'') signedIn) = Resolved True
   \<and> callState (snd (makeCall (demoEnv (js ''L1'') plainConnection) (js ''+12025550123'') signedIn)) = connecting
   \<and> user (initial None True 0) = None
   \<and> fst (makeCall failingEnv (js ''+12025550123'') (initial None True 0))
       = Rejected (ErrorObj (js ''You must be signed in to place calls''))
   \<and> js_trim (js ''  '') = []
   \<and> fst (makeCall failingEnv (js ''  '') signedIn) = Resolved False
   \<and> deviceRef readyState = Some 0 \<and> isClientReady readyState
   \<and> fst (makeCall failingEnv (js ''+12025550123'') readyState) = Resolved True
   \<and> callState readyState = idle
   \<and> fst (makeCall connectFailingEnv (js ''+12025550123'') readyState)
       = Rejected (ErrorObj (js ''connect failed''))
   \<and> callState (snd (makeCall connectFailingEnv (js ''+12025550123'') readyState)) = connecting"
proof -
  have t: "js_trim (js ''+12025550123'') \<noteq> []" "js_trim (js ''  '') = []"
    by (simp_all add: js_trim_def js_def isWhiteSpace_def)
  have e: "tokenFetch failingEnv = Inl (ErrorObj (js ''token endpoint down''))"
    "connectOutcome failingEnv = Inr plainConnection"
    "tokenFetch (demoEnv (js ''L1'') plainConnection) = Inr demoToken"
    "registerOutcome (demoEnv (js ''L1'') plainConnection) = None"
    "connectOutcome (demoEnv (js ''L1'') plainConnection) = Inr plainConnection"
    "connectOutcome connectFailingEnv = Inl (ErrorObj (js ''connect failed''))"
    by (simp_all add: failingEnv_def connectFailingEnv_def demoEnv_def)
  have n: "user (initial None True 0) = None" by (simp add: initial_def)
  have i: "callState readyState = idle" by (simp add: demo_defs ctrl_defs Let_def)
  from makeCall_initialises [of signedIn failingEnv "js ''+12025550123''"]
       makeCall_initialises [of signedIn "demoEnv (js ''L1'') plainConnection" "js ''+12025550123''"]
       makeCall_initialises [of "initial None True 0" failingEnv "js ''+12025550123''"]
       makeCall_initialises [of signedIn failingEnv "js ''  ''"]
       makeCall_initialises [of readyState failingEnv "js ''+12025550123''"]
       makeCall_initialises [of readyState connectFailingEnv "js ''+12025550123''"]
       t e n i signedIn_fields ready_fields
  show ?thesis by simp
qed

section \<open>An outbound call from dialling to hang-up\<close>

lemma filter_fresh:
  assumes "\<forall>x \<in> set xs. fst x \<noteq> c"
  shows "filter (\<lambda>l. fst l = c \<and> P l) xs = []"
  using assms by (induction xs) auto

lemma fresh_notin:
  assumes "\<forall>x \<in> set xs. fst x \<noteq> c"
  shows "(c, e, h) \<notin> set xs"
  using assms by force

lemma makeCall_ready:
  assumes "user s = Some u" "deviceRef s = Some d" "isClientReady s"
    and "js_trim dest \<noteq> []" "connectOutcome env = Inr k"
  shows "fst (makeCall env dest s) = Resolved True"
    and "callState (snd (makeCall env dest s)) = connecting"
    and "user (snd (makeCall env dest s)) = Some u"
    and "deviceRef (snd (makeCall env dest s)) = Some d"
    and "deviceListeners (snd (makeCall env dest s)) = deviceListeners s"
    and "firebaseDb (snd (makeCall env dest s)) = firebaseDb s"
    and "activeConnectionRef (snd (makeCall env dest s)) = Some (nextConnection s)"
    and "connListeners (snd (makeCall env dest s)) = connListeners s @
           [(nextConnection s, Ev_ringing, H_ringing), (nextConnection s, Ev_cancel, H_cancel (Some u)),
            (nextConnection s, Ev_reject, H_reject (Some u)), (nextConnection s, Ev_error, H_error (Some u))]"
    and "connections (snd (makeCall env dest s)) = (connections s)(nextConnection s \<mapsto> k)"
    and "isMuted (snd (makeCall env dest s)) = False"
    and "isOnHold (snd (makeCall env dest s)) = False"
  using assms
  by (simp_all add: step_defs Let_def split: sum.split)

lemma makeCall_ready_log:
  assumes "user s = Some u" "deviceRef s = Some d" "isClientReady s"
    and "js_trim dest \<noteq> []" "connectOutcome env = Inr k"
    and "firebaseDb s" "addDocOutcome env = Inr l"
  shows "activeLogIdRef (snd (makeCall env dest s)) = Some l"
    and "\<exists>p. firestoreCalls (snd (makeCall env dest s)) = firestoreCalls s @ [AddDoc (uid u) p]"
  using assms
  by (simp_all add: step_defs Let_def)

lemma emit_ringing:
  assumes "connListeners s = ls @ [(c, Ev_ringing, H_ringing), (c, Ev_cancel, H_cancel cu),
                                   (c, Ev_reject, H_reject cu), (c, Ev_error, H_error cu)]"
    and "\<forall>x \<in> set ls. fst x \<noteq> c"
  shows "emit c Ev_ringing err s =
           pushEvent (js ''Call ringing'')
             (s\<lparr> connListeners := ls @ [(c, Ev_cancel, H_cancel cu), (c, Ev_reject, H_reject cu),
                                         (c, Ev_error, H_error cu)],
                 callState := ringing \<rparr>)"
  using assms
  by (simp add: emit_def runHandler_def filter_fresh fresh_notin remove1_append)

lemma connect_event:
  assumes "deviceListeners s d = Some (i, cap)"
  shows "callState (device_emit d (Dev_connect c) s) = active"
    and "connListeners (device_emit d (Dev_connect c) s) = connListeners s @
           [(c, Ev_disconnect, H_connect_disconnect (snd cap)), (c, Ev_error, H_connect_error (snd cap))]"
    and "activeConnectionRef (device_emit d (Dev_connect c) s) = Some c"
    and "user (device_emit d (Dev_connect c) s) = user s"
    and "deviceRef (device_emit d (Dev_connect c) s) = deviceRef s"
    and "firebaseDb (device_emit d (Dev_connect c) s) = firebaseDb s"
    and "activeLogIdRef (device_emit d (Dev_connect c) s) = activeLogIdRef s"
    and "firestoreCalls (device_emit d (Dev_connect c) s) = firestoreCalls s"
    and "activeCallStartedAtRef (device_emit d (Dev_connect c) s) = Some (now s)"
  using assms
  by (simp_all add: device_emit_def deviceHandler_def attachOnce_def pushEvent_def Let_def)

lemma hangUp_fields:
  "callState (hangUp s) = idle"
  "isMuted (hangUp s) = False"
  "isOnHold (hangUp s) = False"
  "connListeners (hangUp s) = connListeners s"
  "user (hangUp s) = user s"
  "firebaseDb (hangUp s) = firebaseDb s"
  by (simp_all add: hangUp_def finalizeActiveLog_def finalizeUserCallLog_def pushEvent_def Let_def
        split: option.split)

lemma hangUp_finalizes:
  assumes "user s = Some u" "activeLogIdRef s = Some l" "l \<noteq> []" "firebaseDb s"
  shows "\<exists>p. firestoreCalls (hangUp s) = firestoreCalls s @ [UpdateDoc (uid u) l p]
           \<and> p ''status'' = Some (FString (js ''completed''))"
    and "activeLogIdRef (hangUp s) = None"
proof -
  have f: "firestoreCalls (hangUp s) = firestoreCalls s @
             [UpdateDoc (uid u) l
                (finalizeUserCallLog_payload
                   (finalizeUpdates Completed (durationSeconds (activeCallStartedAtRef s) (now s))
                      (js_trim (callNoteRef s)) Map.empty))]"
    using assms by (simp add: hangUp_def Let_def finalizeActiveLog_writes split: option.split)
  have "finalizeUserCallLog_payload
          (finalizeUpdates Completed (durationSeconds (activeCallStartedAtRef s) (now s))
             (js_trim (callNoteRef s)) Map.empty) ''status'' = Some (FString (js ''completed''))"
    by (simp add: finalize_payload_fields statusString_def)
  with f show "\<exists>p. firestoreCalls (hangUp s) = firestoreCalls s @ [UpdateDoc (uid u) l p]
           \<and> p ''status'' = Some (FString (js ''completed''))"
    by blast
  show "activeLogIdRef (hangUp s) = None"
    using assms by (simp add: hangUp_def Let_def finalizeActiveLog_writes split: option.split)
qed

lemma emit_disconnect:
  assumes "connListeners s = ls @ [(c, Ev_cancel, H_cancel cu), (c, Ev_reject, H_reject cu),
             (c, Ev_error, H_error cu), (c, Ev_disconnect, H_connect_disconnect cv),
             (c, Ev_error, H_connect_error cv)]"
    and "\<forall>x \<in> set ls. fst x \<noteq> c"
    and "activeLogIdRef s = None"
  shows "callState (emit c Ev_disconnect err s) = completed"
    and "firestoreCalls (emit c Ev_disconnect err s) = firestoreCalls s"
    and "isMuted (emit c Ev_disconnect err s) = False"
    and "isOnHold (emit c Ev_disconnect err s) = False"
  using assms
  by (simp_all add: emit_def runHandler_def filter_fresh fresh_notin remove1_append
        finalizeActiveLog_noop pushEvent_def Let_def)

text \<open>
  C5 as stated fails at its last step: \<open>hangUp\<close> sets the call state to \<open>idle\<close>, not to
  \<open>completed\<close>; here on the connected call of the signed-in agent.
\<close>

theorem hangUp_idle_counterexample:
  "callState (connected plainConnection) = active
   \<and> callState (hangUp (connected plainConnection)) = idle
   \<and> callState (hangUp (connected plainConnection)) \<noteq> completed"
proof -
  have "callState (connected plainConnection) = active"
    by (simp add: demo_defs ctrl_defs Let_def)
  then show ?thesis by (simp add: hangUp_fields)
qed

text \<open>
  C5, amended. On a ready device whose listeners are attached, with a user signed in and
  the call log created: \<open>makeCall\<close> resolves to true with call state \<open>connecting\<close>; the
  \<open>ringing\<close> event of the new call object gives \<open>ringing\<close>; the device's \<open>connect\<close> event for
  it gives \<open>active\<close>; \<open>hangUp\<close> then gives \<open>idle\<close> and sends the one update of the call log,
  with status \<open>completed\<close>; the \<open>disconnect\<close> event that follows gives \<open>completed\<close> and sends
  nothing more. Any time may pass between the steps.
\<close>

theorem outbound_call_scenario:
  assumes "user s = Some u" "deviceRef s = Some d" "isClientReady s"
    and "deviceListeners s d = Some (i, cap)" "firebaseDb s"
    and "\<forall>x \<in> set (connListeners s). fst x \<noteq> nextConnection s"
    and "js_trim dest \<noteq> []" "connectOutcome env = Inr k"
    and "addDocOutcome env = Inr l" "l \<noteq> []"
  shows "fst (makeCall env dest s) = Resolved True
    \<and> callState (snd (makeCall env dest s)) = connecting
    \<and> callState (emit (nextConnection s) Ev_ringing None (advance t1 (snd (makeCall env dest s))))
        = ringing
    \<and> callState (device_emit d (Dev_connect (nextConnection s)) (advance t2
         (emit (nextConnection s) Ev_ringing None (advance t1 (snd (makeCall env dest s))))))
        = active
    \<and> callState (hangUp (advance t3 (device_emit d (Dev_connect (nextConnection s)) (advance t2
         (emit (nextConnection s) Ev_ringing None (advance t1 (snd (makeCall env dest s))))))))
        = idle
    \<and> (\<exists>p. firestoreCalls (hangUp (advance t3 (device_emit d (Dev_connect (nextConnection s)) (advance t2
               (emit (nextConnection s) Ev_ringing None (advance t1 (snd (makeCall env dest s))))))))
           = firestoreCalls (snd (makeCall env dest s)) @ [UpdateDoc (uid u) l p]
           \<and> p ''status'' = Some (FString (js ''completed'')))
    \<and> callState (emit (nextConnection s) Ev_disconnect None (advance t4
         (hangUp (advance t3 (device_emit d (Dev_connect (nextConnection s)) (advance t2
           (emit (nextConnection s) Ev_ringing None (advance t1 (snd (makeCall env dest s))))))))))
        = completed
    \<and> firestoreCalls (emit (nextConnection s) Ev_disconnect None (advance t4
         (hangUp (advance t3 (device_emit d (Dev_connect (nextConnection s)) (advance t2
           (emit (nextConnection s) Ev_ringing None (advance t1 (snd (makeCall env dest s))))))))))
        = firestoreCalls (hangUp (advance t3 (device_emit d (Dev_connect (nextConnection s)) (advance t2
           (emit (nextConnection s) Ev_ringing None (advance t1 (snd (makeCall env dest s))))))))"
proof -
  define c where "c = nextConnection s"
  define s1 where "s1 = snd (makeCall env dest s)"
  define s2 where "s2 = emit c Ev_ringing None (advance t1 s1)"
  define s3 where "s3 = device_emit d (Dev_connect c) (advance t2 s2)"
  define s4 where "s4 = hangUp (advance t3 s3)"
  define s5 where "s5 = emit c Ev_disconnect None (advance t4 s4)"
  note m = makeCall_ready [OF assms(1,2,3,7,8), folded s1_def c_def]
  note ml = makeCall_ready_log [OF assms(1,2,3,7,8,5,9), folded s1_def c_def]
  from assms(6) have fresh: "\<forall>x \<in> set (connListeners s). fst x \<noteq> c"
    by (simp add: c_def)
  have a1: "connListeners (advance t1 s1) = connListeners s @
           [(c, Ev_ringing, H_ringing), (c, Ev_cancel, H_cancel (Some u)),
            (c, Ev_reject, H_reject (Some u)), (c, Ev_error, H_error (Some u))]"
    using m(8) by (simp add: advance_def)
  note r = emit_ringing [OF a1 fresh, of None, folded s2_def]
  have s2f: "callState s2 = ringing" "user s2 = Some u" "firebaseDb s2"
    "deviceListeners s2 d = Some (i, cap)" "activeLogIdRef s2 = Some l"
    "firestoreCalls s2 = firestoreCalls s1"
    "connListeners s2 = connListeners s @
       [(c, Ev_cancel, H_cancel (Some u)), (c, Ev_reject, H_reject (Some u)),
        (c, Ev_error, H_error (Some u))]"
    using m ml assms(4,5) by (simp_all add: r pushEvent_def advance_def)
  have d2: "deviceListeners (advance t2 s2) d = Some (i, cap)"
    using s2f by (simp add: advance_def)
  note cn = connect_event [OF d2, of c, folded s3_def]
  have s3f: "callState s3 = active" "user s3 = Some u" "firebaseDb s3"
    "activeLogIdRef s3 = Some l" "firestoreCalls s3 = firestoreCalls s1"
    "connListeners s3 = connListeners s @
       [(c, Ev_cancel, H_cancel (Some u)), (c, Ev_reject, H_reject (Some u)),
        (c, Ev_error, H_error (Some u)),
        (c, Ev_disconnect, H_connect_disconnect (snd cap)), (c, Ev_error, H_connect_error (snd cap))]"
    using s2f by (simp_all add: cn advance_def)
  have h3: "user (advance t3 s3) = Some u" "activeLogIdRef (advance t3 s3) = Some l"
    "firebaseDb (advance t3 s3)"
    using s3f by (simp_all add: advance_def)
  note hf = hangUp_finalizes [OF h3(1) h3(2) assms(10) h3(3), folded s4_def]
  have s4f: "callState s4 = idle"
    "connListeners (advance t4 s4) = connListeners s @
       [(c, Ev_cancel, H_cancel (Some u)), (c, Ev_reject, H_reject (Some u)),
        (c, Ev_error, H_error (Some u)),
        (c, Ev_disconnect, H_connect_disconnect (snd cap)), (c, Ev_error, H_connect_error (snd cap))]"
    "activeLogIdRef (advance t4 s4) = None"
    "firestoreCalls (advance t4 s4) = firestoreCalls s4"
    using s3f hf(2) by (simp_all add: s4_def hangUp_fields advance_def)
  note e = emit_disconnect [OF s4f(2) fresh s4f(3), of None, folded s5_def]
  have f4: "\<exists>p. firestoreCalls s4 = firestoreCalls s1 @ [UpdateDoc (uid u) l p]
           \<and> p ''status'' = Some (FString (js ''completed''))"
    using hf(1) s3f(5) by (simp add: advance_def)
  have "fst (makeCall env dest s) = Resolved True
    \<and> callState s1 = connecting \<and> callState s2 = ringing \<and> callState s3 = active
    \<and> callState s4 = idle
    \<and> (\<exists>p. firestoreCalls s4 = firestoreCalls s1 @ [UpdateDoc (uid u) l p]
           \<and> p ''status'' = Some (FString (js ''completed'')))
    \<and> callState s5 = completed \<and> firestoreCalls s5 = firestoreCalls s4"
    using m(1,2) s2f(1) s3f(1) s4f(1,4) f4 e(1,2) by simp
  then show ?thesis
    unfolding s5_def s4_def s3_def s2_def s1_def c_def .
qed

theorem outbound_call_scenario_witness:
  "user readyState = Some demoUser \<and> deviceRef readyState = Some 0 \<and> isClientReady readyState
   \<and> deviceListeners readyState 0 = Some (js ''agent@example.com'', None, Some demoUser)
   \<and> firebaseDb readyState
   \<and> connListeners readyState = []
   \<and> nextConnection readyState = 0
   \<and> js_trim (js ''+12025550123'') \<noteq> []
   \<and> connectOutcome (demoEnv (js ''L1'') plainConnection) = Inr plainConnection
   \<and> addDocOutcome (demoEnv (js ''L1'') plainConnection) = Inr (js ''L1'')
   \<and> js ''L1'' \<noteq> []
   \<and> callState (snd (makeCall (demoEnv (js ''L1'') plainConnection) (js ''+12025550123'') readyState))
        = connecting
   \<and> callState (hangUp (advance 30 (device_emit 0 (Dev_connect 0) (advance 20
         (emit 0 Ev_ringing None (advance 10
            (snd (makeCall (demoEnv (js ''L1'') plainConnection) (js ''+12025550123'') readyState))))))))
        = idle
   \<and> callState (emit 0 Ev_disconnect None (advance 40
         (hangUp (advance 30 (device_emit 0 (Dev_connect 0) (advance 20
           (emit 0 Ev_ringing None (advance 10
              (snd (makeCall (demoEnv (js ''L1'') plainConnection) (js ''+12025550123'') readyState))))))))))
        = completed"
proof -
  have f: "\<forall>x \<in> set (connListeners readyState). fst x \<noteq> nextConnection readyState"
    by (simp add: ready_fields)
  have t: "js_trim (js ''+12025550123'') \<noteq> []"
    by (simp add: js_trim_def js_def isWhiteSpace_def)
  have c: "connectOutcome (demoEnv (js ''L1'') plainConnection) = Inr plainConnection"
    and a: "addDocOutcome (demoEnv (js ''L1'') plainConnection) = Inr (js ''L1'')"
    by (simp_all add: demoEnv_def)
  have l: "js ''L1'' \<noteq> []" by (simp add: js_def)
  from outbound_call_scenario [OF ready_fields(1) ready_fields(2) ready_fields(3) ready_fields(4)
         ready_fields(5) f t c a l, of 10 20 30 40]
       ready_fields f t c a l
  show ?thesis by simp
qed

section \<open>Notifications of a replaced call\<close>

text \<open>
  C3 fails on the code. The listeners of the inbound leg compare the call object with
  \<open>incomingConnectionRef\<close>, but the \<open>disconnect\<close> and \<open>error\<close> listeners of a connected call
  and the listeners that \<open>makeCall\<close> attaches do not look at \<open>activeConnectionRef\<close>. After
  the first call (object 0) was hung up and a second one (object 1, log \<open>L2\<close>) dialled, the
  late \<open>disconnect\<close> of object 0 sets the call state of the new call to \<open>completed\<close>, drops
  the tracked call object and finalises the log \<open>L2\<close> of the new call as \<open>completed\<close>.
\<close>

theorem stale_disconnect_alters_new_call:
  "callState redialled = connecting
   \<and> activeConnectionRef redialled = Some 1
   \<and> activeLogIdRef redialled = Some (js ''L2'')
   \<and> callState (emit 0 Ev_disconnect None redialled) = completed
   \<and> activeConnectionRef (emit 0 Ev_disconnect None redialled) = None
   \<and> activeLogIdRef (emit 0 Ev_disconnect None redialled) = None
   \<and> length (firestoreCalls (emit 0 Ev_disconnect None redialled))
       = Suc (length (firestoreCalls redialled))
   \<and> (case last (firestoreCalls (emit 0 Ev_disconnect None redialled)) of
         UpdateDoc userId logId p \<Rightarrow>
           logId = js ''L2'' \<and> p ''status'' = Some (FString (js ''completed''))
       | AddDoc userId p \<Rightarrow> False)"
  by (simp add: demo_defs ctrl_defs finalizeUserCallLog_payload_def Let_def)

section \<open>Flags at a terminal state\<close>

text \<open>
  C6 fails on the code. The \<open>disconnect\<close> listener and \<open>hangUp\<close> reset \<open>isMuted\<close> and
  \<open>isOnHold\<close>, the \<open>error\<close>, \<open>cancel\<close> and \<open>reject\<close> listeners of \<open>makeCall\<close> do not: a dialled
  call that was muted and then fails with \<open>error\<close> is in state \<open>failed\<close> with \<open>isMuted\<close> still
  set, and one that was put on hold and then cancelled or rejected is \<open>failed\<close> with
  \<open>isOnHold\<close> still set.
\<close>

theorem failed_call_keeps_flags:
  "isMuted (snd (toggleMute None (dialling plainConnection)))
   \<and> callState (emit 0 Ev_error None (snd (toggleMute None (dialling plainConnection)))) = failed
   \<and> isMuted (emit 0 Ev_error None (snd (toggleMute None (dialling plainConnection))))
   \<and> isOnHold (snd (toggleHold None (dialling holdConnection)))
   \<and> callState (emit 0 Ev_cancel None (snd (toggleHold None (dialling holdConnection)))) = failed
   \<and> isOnHold (emit 0 Ev_cancel None (snd (toggleHold None (dialling holdConnection))))
   \<and> callState (emit 0 Ev_reject None (snd (toggleHold None (dialling holdConnection)))) = failed
   \<and> isOnHold (emit 0 Ev_reject None (snd (toggleHold None (dialling holdConnection))))"
  by (simp add: toggleMute_def toggleHold_def currentHold_def sdk_setMuted_def sdk_setOnHold_def
        demo_defs ctrl_defs finalizeUserCallLog_payload_def Let_def)

end
